theory Spec2Isabelle
  imports Complex_Main
begin

section \<open>Numbers, strings and errors\<close>

text \<open>
  The simulator (\<^verbatim>\<open>pendulum.py\<close>) computes with IEEE double precision numbers: Python
  \<^verbatim>\<open>float\<close> scalars and numpy \<^verbatim>\<open>float64\<close> array elements. A value is an \<open>npfloat\<close>:
  a finite number, carried as the real it denotes, or one of the special values, which
  the arithmetic propagates without raising.
\<close>

datatype npfloat = Fin real | PInf | NInf | NaN

text \<open>Negation, absolute value and comparison are exact; a comparison with \<open>NaN\<close> is false.\<close>

instantiation npfloat :: "{uminus, abs, ord}"
begin

fun uminus_npfloat :: "npfloat \<Rightarrow> npfloat" where
  "uminus_npfloat (Fin a) = Fin (- a)"
| "uminus_npfloat PInf = NInf"
| "uminus_npfloat NInf = PInf"
| "uminus_npfloat NaN = NaN"

fun abs_npfloat :: "npfloat \<Rightarrow> npfloat" where
  "abs_npfloat (Fin a) = Fin \<bar>a\<bar>"
| "abs_npfloat PInf = PInf"
| "abs_npfloat NInf = PInf"
| "abs_npfloat NaN = NaN"

fun less_npfloat :: "npfloat \<Rightarrow> npfloat \<Rightarrow> bool" where
  "less_npfloat (Fin a) (Fin b) = (a < b)"
| "less_npfloat NaN _ = False"
| "less_npfloat _ NaN = False"
| "less_npfloat _ NInf = False"
| "less_npfloat PInf _ = False"
| "less_npfloat _ _ = True"

fun less_eq_npfloat :: "npfloat \<Rightarrow> npfloat \<Rightarrow> bool" where
  "less_eq_npfloat (Fin a) (Fin b) = (a \<le> b)"
| "less_eq_npfloat NaN _ = False"
| "less_eq_npfloat _ NaN = False"
| "less_eq_npfloat NInf _ = True"
| "less_eq_npfloat _ PInf = True"
| "less_eq_npfloat _ _ = False"

instance ..

end

text \<open>A Python string is the list of its code points.\<close>

type_synonym py_str = "nat list"

definition py :: "string \<Rightarrow> py_str" where
  "py s = map of_char s"

text \<open>
  What the module takes from Python, numpy and the processor is not part of the
  repository; it is a parameter of the model:
  \<^item> \<open>rnd\<close>, the float64 result of an addition, multiplication or division of finite
    operands, given its exact value: the rounded value, or an infinity when the
    operation overflows;
  \<^item> \<open>libm_sin\<close> and \<open>libm_cos\<close>, the values of \<^verbatim>\<open>np.sin\<close> and \<^verbatim>\<open>np.cos\<close> at a finite
    argument (always finite);
  \<^item> \<open>libm_pow\<close>, the value of \<^verbatim>\<open>x ** n\<close> at a finite \<open>x\<close>;
  \<^item> \<open>max_intp\<close>, the largest value of numpy's index type, which bounds the length and
    the size in bytes of an array;
  \<^item> \<open>memory\<close>, the largest number of float64 elements for which an allocation
    succeeds;
  \<^item> \<open>unicode_lower\<close>, the method \<^verbatim>\<open>str.lower\<close>.
  A theorem about every platform holds for the arithmetic the program really runs on.
  The two zeros of float64 are one value \<open>Fin 0\<close>; they compare equal, and no division
  of the module has a zero divisor.
\<close>

record platform =
  rnd :: "real \<Rightarrow> npfloat"
  libm_sin :: "real \<Rightarrow> real"
  libm_cos :: "real \<Rightarrow> real"
  libm_pow :: "real \<Rightarrow> nat \<Rightarrow> npfloat"
  max_intp :: int
  memory :: nat
  unicode_lower :: "py_str \<Rightarrow> py_str"

text \<open>The sign of an infinite product; a zero factor gives \<open>NaN\<close>.\<close>

definition signed_inf :: "real \<Rightarrow> npfloat \<Rightarrow> npfloat" where
  "signed_inf a x = (if a = 0 then NaN else if 0 < a then x else - x)"

fun fadd :: "platform \<Rightarrow> npfloat \<Rightarrow> npfloat \<Rightarrow> npfloat" where
  "fadd P (Fin a) (Fin b) = rnd P (a + b)"
| "fadd P NaN _ = NaN"
| "fadd P _ NaN = NaN"
| "fadd P PInf NInf = NaN"
| "fadd P NInf PInf = NaN"
| "fadd P PInf _ = PInf"
| "fadd P _ PInf = PInf"
| "fadd P NInf _ = NInf"
| "fadd P _ NInf = NInf"

definition fsub :: "platform \<Rightarrow> npfloat \<Rightarrow> npfloat \<Rightarrow> npfloat" where
  "fsub P x y = fadd P x (- y)"

fun fmul :: "platform \<Rightarrow> npfloat \<Rightarrow> npfloat \<Rightarrow> npfloat" where
  "fmul P (Fin a) (Fin b) = rnd P (a * b)"
| "fmul P NaN _ = NaN"
| "fmul P _ NaN = NaN"
| "fmul P (Fin a) x = signed_inf a x"
| "fmul P x (Fin b) = signed_inf b x"
| "fmul P PInf x = x"
| "fmul P NInf x = - x"

text \<open>
  Division of floats by a numpy scalar never raises. A finite nonzero value divided by
  zero is an infinity (the zero is taken as \<open>+0\<close>), and \<open>0 / 0\<close> is \<open>NaN\<close>.
\<close>

fun fdiv :: "platform \<Rightarrow> npfloat \<Rightarrow> npfloat \<Rightarrow> npfloat" where
  "fdiv P (Fin a) (Fin b) =
     (if b \<noteq> 0 then rnd P (a / b)
      else if a = 0 then NaN else if 0 < a then PInf else NInf)"
| "fdiv P NaN _ = NaN"
| "fdiv P _ NaN = NaN"
| "fdiv P (Fin a) _ = Fin 0"
| "fdiv P PInf (Fin b) = (if 0 \<le> b then PInf else NInf)"
| "fdiv P NInf (Fin b) = (if 0 \<le> b then NInf else PInf)"
| "fdiv P _ _ = NaN"

text \<open>\<^verbatim>\<open>np.sin\<close> and \<^verbatim>\<open>np.cos\<close>: \<open>NaN\<close> at an infinity (with a warning, no exception).\<close>

fun np_sin :: "platform \<Rightarrow> npfloat \<Rightarrow> npfloat" where
  "np_sin P (Fin a) = Fin (libm_sin P a)"
| "np_sin P _ = NaN"

fun np_cos :: "platform \<Rightarrow> npfloat \<Rightarrow> npfloat" where
  "np_cos P (Fin a) = Fin (libm_cos P a)"
| "np_cos P _ = NaN"

text \<open>\<^verbatim>\<open>x ** n\<close> for a numpy scalar and a natural exponent: an infinity on overflow.\<close>

fun np_pow :: "platform \<Rightarrow> npfloat \<Rightarrow> nat \<Rightarrow> npfloat" where
  "np_pow P (Fin a) n = libm_pow P a n"
| "np_pow P NaN n = (if n = 0 then Fin 1 else NaN)"
| "np_pow P PInf n = (if n = 0 then Fin 1 else PInf)"
| "np_pow P NInf n = (if n = 0 then Fin 1 else if even n then PInf else NInf)"

definition is_finite :: "npfloat \<Rightarrow> bool" where
  "is_finite x = (case x of Fin _ \<Rightarrow> True | _ \<Rightarrow> False)"

text \<open>
  A one-dimensional array is the list of its elements; its shape is \<open>(n,)\<close> with
  \<open>n\<close> its length. Arithmetic on arrays of one shape is component-wise, and a scalar
  is broadcast over the array.
\<close>

type_synonym ndarray = "npfloat list"

definition vadd :: "platform \<Rightarrow> ndarray \<Rightarrow> ndarray \<Rightarrow> ndarray" where
  "vadd P xs ys = map2 (fadd P) xs ys"

definition smul :: "platform \<Rightarrow> npfloat \<Rightarrow> ndarray \<Rightarrow> ndarray" where
  "smul P c xs = map (fmul P c) xs"

text \<open>
  The exceptions. A \<open>ValueError\<close> carries the place that raised it (the messages
  themselves are not ASCII); a \<open>NotImplementedError\<close> carries the method name that its
  message quotes.
\<close>

datatype value_error =
    LengthsNotPositive
  | MassesNotPositive
  | StepNotPositive
  | TmaxNotPositive
  | BadShape
  | UnpackMismatch
  | ArangeLength
  | ArrayTooBig

datatype py_error =
    ValueError value_error
  | NotImplementedError py_str
  | IndexError
  | MemoryError

definition bind_result :: "py_error + 'a \<Rightarrow> ('a \<Rightarrow> py_error + 'b) \<Rightarrow> py_error + 'b" where
  "bind_result r f = (case r of Inl e \<Rightarrow> Inl e | Inr x \<Rightarrow> f x)"

section \<open>The model: \<^verbatim>\<open>DoublePendulum\<close>\<close>

record DoublePendulum =
  L1 :: real
  L2 :: real
  m1 :: real
  m2 :: real
  g :: real

text \<open>\<^verbatim>\<open>__init__(self, L1, L2, m1, m2, g=9.81)\<close>; \<open>None\<close> is the omitted argument.\<close>

definition init :: "real \<Rightarrow> real \<Rightarrow> real \<Rightarrow> real \<Rightarrow> real option \<Rightarrow> py_error + DoublePendulum" where
  "init l1 l2 mass1 mass2 g_arg =
     (if l1 \<le> 0 \<or> l2 \<le> 0 then Inl (ValueError LengthsNotPositive)
      else if mass1 \<le> 0 \<or> mass2 \<le> 0 then Inl (ValueError MassesNotPositive)
      else Inr \<lparr>L1 = l1, L2 = l2, m1 = mass1, m2 = mass2,
                g = (case g_arg of None \<Rightarrow> 9.81 | Some gv \<Rightarrow> gv)\<rparr>)"

text \<open>
  \<^verbatim>\<open>derivatives(self, state)\<close>. Unpacking \<^verbatim>\<open>theta1, theta2, omega1, omega2 = state\<close>
  raises a \<open>ValueError\<close> unless the state has exactly four elements. Every operation
  is written where the source has it, in the order in which Python evaluates it.
\<close>

definition eps :: real where
  "eps = 1 / 10 ^ 8"

fun derivatives :: "platform \<Rightarrow> DoublePendulum \<Rightarrow> ndarray \<Rightarrow> py_error + ndarray" where
  "derivatives P self [theta1, theta2, omega1, omega2] =
     (let \<Delta> = fsub P theta1 theta2;
          sin\<Delta> = np_sin P \<Delta>;
          cos\<Delta> = np_cos P \<Delta>;
          denom1 = fmul P (Fin (L1 self))
                     (fadd P (Fin (m1 self)) (fmul P (fmul P (Fin (m2 self)) sin\<Delta>) sin\<Delta>));
          denom2 = fmul P (Fin (L2 self))
                     (fadd P (Fin (m1 self)) (fmul P (fmul P (Fin (m2 self)) sin\<Delta>) sin\<Delta>))
      in if \<bar>denom1\<bar> < Fin eps \<or> \<bar>denom2\<bar> < Fin eps
         then Inr [omega1, omega2, Fin 0, Fin 0]
         else
           (let num1 =
                  fsub P
                    (fsub P
                       (fmul P (fmul P (fmul P (Fin (m2 self)) (Fin (g self))) (np_sin P theta2)) cos\<Delta>)
                       (fmul P (fmul P (Fin (m2 self)) sin\<Delta>)
                          (fadd P (fmul P (fmul P (Fin (L1 self)) (np_pow P omega1 2)) cos\<Delta>)
                                  (fmul P (Fin (L2 self)) (np_pow P omega2 2)))))
                    (fmul P (fmul P (fadd P (Fin (m1 self)) (Fin (m2 self))) (Fin (g self)))
                       (np_sin P theta1));
                alpha1 = fdiv P num1 denom1;
                num2 =
                  fadd P
                    (fmul P (fadd P (Fin (m1 self)) (Fin (m2 self)))
                       (fadd P
                          (fsub P (fmul P (fmul P (Fin (L1 self)) (np_pow P omega1 2)) sin\<Delta>)
                                  (fmul P (Fin (g self)) (np_sin P theta2)))
                          (fmul P (fmul P (Fin (g self)) (np_sin P theta1)) cos\<Delta>)))
                    (fmul P
                       (fmul P (fmul P (fmul P (Fin (m2 self)) (Fin (L2 self))) (np_pow P omega2 2))
                          sin\<Delta>)
                       cos\<Delta>);
                alpha2 = fdiv P num2 denom2
            in Inr [omega1, omega2, alpha1, alpha2]))"
| "derivatives P self _ = Inl (ValueError UnpackMismatch)"

section \<open>The integrator\<close>

text \<open>
  The allocation of an array of \<open>n\<close> float64 elements (eight bytes each): numpy raises
  a \<open>ValueError\<close> when the size in bytes is beyond its index type, and a \<open>MemoryError\<close>
  when the memory is not there.
\<close>

definition np_alloc :: "platform \<Rightarrow> nat \<Rightarrow> py_error + unit" where
  "np_alloc P n =
     (if max_intp P < 8 * int n then Inl (ValueError ArrayTooBig)
      else if memory P < n then Inl MemoryError
      else Inr ())"

text \<open>\<^verbatim>\<open>np.zeros((n, m), dtype=float)\<close>.\<close>

definition np_zeros :: "platform \<Rightarrow> nat \<Rightarrow> nat \<Rightarrow> py_error + ndarray list" where
  "np_zeros P n m =
     bind_result (np_alloc P (n * m)) (\<lambda>_. Inr (replicate n (replicate m (Fin 0))))"

text \<open>
  \<^verbatim>\<open>np.arange(start, stop, step)\<close> on floats. The length is the ceiling of
  \<open>(stop - start) / step\<close>, a quotient of floats; numpy raises a \<open>ValueError\<close> when the
  quotient is not a number or its ceiling is outside its index type, and a ceiling
  that is not positive gives the empty array. The array is filled as numpy does it:
  element \<open>0\<close> is \<open>start\<close>, element \<open>1\<close> is \<open>start + step\<close>, and element \<open>i\<close> from \<open>2\<close> on
  is \<open>start + i * delta\<close> with \<open>delta\<close> the difference of the first two elements (an
  index is far below \<open>2^53\<close>, so its conversion to float64 is exact).
\<close>

definition arange_fill :: "platform \<Rightarrow> npfloat \<Rightarrow> npfloat \<Rightarrow> nat \<Rightarrow> npfloat list" where
  "arange_fill P start step n =
     (let next = fadd P start step;
          delta = fsub P next start
      in map (\<lambda>i. if i = 0 then start
                  else if i = 1 then next
                  else fadd P start (fmul P (Fin (real i)) delta)) [0..<n])"

definition np_arange :: "platform \<Rightarrow> npfloat \<Rightarrow> npfloat \<Rightarrow> npfloat \<Rightarrow> py_error + npfloat list" where
  "np_arange P start stop step =
     (case fdiv P (fsub P stop start) step of
        Fin q \<Rightarrow>
          if \<lceil>q\<rceil> < - max_intp P - 1 \<or> max_intp P < \<lceil>q\<rceil>
          then Inl (ValueError ArangeLength)
          else bind_result (np_alloc P (nat \<lceil>q\<rceil>))
                 (\<lambda>_. Inr (arange_fill P start step (nat \<lceil>q\<rceil>)))
      | _ \<Rightarrow> Inl (ValueError ArangeLength))"

text \<open>
  The body of the loop of \<^verbatim>\<open>integrate\<close> for one row \<open>yi\<close>: the four stages and the
  row that is stored at \<open>Y[i + 1]\<close>.
\<close>

definition rk4_row :: "platform \<Rightarrow> DoublePendulum \<Rightarrow> npfloat \<Rightarrow> ndarray \<Rightarrow> py_error + ndarray" where
  "rk4_row P self dt_i yi =
     bind_result (derivatives P self yi) (\<lambda>k1.
     bind_result (derivatives P self (vadd P yi (smul P (fmul P (Fin 0.5) dt_i) k1))) (\<lambda>k2.
     bind_result (derivatives P self (vadd P yi (smul P (fmul P (Fin 0.5) dt_i) k2))) (\<lambda>k3.
     bind_result (derivatives P self (vadd P yi (smul P dt_i k3))) (\<lambda>k4.
       Inr (vadd P yi (smul P (fdiv P dt_i (Fin 6))
              (vadd P (vadd P (vadd P k1 (smul P (Fin 2) k2)) (smul P (Fin 2) k3)) k4)))))))"

text \<open>
  \<^verbatim>\<open>for i in range(N - 1)\<close>, over the indices still to visit. The rows \<open>Y[i]\<close> and
  \<open>Y[i + 1]\<close> are read and written by index; an index out of range raises.
\<close>

fun rk4_loop ::
  "platform \<Rightarrow> DoublePendulum \<Rightarrow> npfloat \<Rightarrow> nat list \<Rightarrow> ndarray list \<Rightarrow> py_error + ndarray list" where
  "rk4_loop P self dt [] Y = Inr Y"
| "rk4_loop P self dt (i # rest) Y =
     (if Suc i < length Y
      then bind_result (rk4_row P self dt (Y ! i))
             (\<lambda>row. rk4_loop P self dt rest (Y[Suc i := row]))
      else Inl IndexError)"

text \<open>\<^verbatim>\<open>integrate(self, y0, t_max, dt, method="rk4")\<close>.\<close>

definition integrate ::
  "platform \<Rightarrow> DoublePendulum \<Rightarrow> ndarray \<Rightarrow> npfloat \<Rightarrow> npfloat \<Rightarrow> py_str \<Rightarrow>
     py_error + (npfloat list \<times> ndarray list)" where
  "integrate P self y0 t_max dt method =
     (if dt \<le> Fin 0 then Inl (ValueError StepNotPositive)
      else if t_max \<le> Fin 0 then Inl (ValueError TmaxNotPositive)
      else if length y0 \<noteq> 4 then Inl (ValueError BadShape)
      else
        bind_result (np_arange P (Fin 0) (fadd P t_max (fdiv P dt (Fin 2))) dt) (\<lambda>t.
          (let N = length t
           in bind_result (np_zeros P N 4) (\<lambda>Y.
                if N = 0 then Inl IndexError
                else
                  (let Y = Y[0 := y0]
                   in if unicode_lower P method = py ''rk4''
                      then bind_result (rk4_loop P self dt [0..<N - 1] Y) (\<lambda>Y. Inr (t, Y))
                      else Inl (NotImplementedError method))))))"

section \<open>The integrator with the work it has done\<close>

text \<open>
  To speak about the order of the statements of \<^verbatim>\<open>integrate\<close>, the same code is
  modelled once more with a log of the work done up to the point where the call
  returns or raises: the time grid built (\<^verbatim>\<open>np.arange\<close> has returned), the state
  array allocated (\<^verbatim>\<open>np.zeros\<close> has returned), and every call of \<^verbatim>\<open>derivatives\<close>.
\<close>

datatype work = BuildGrid | AllocStates | EvalDerivative

type_synonym 'a traced = "work list \<times> (py_error + 'a)"

definition bind_traced :: "'a traced \<Rightarrow> ('a \<Rightarrow> 'b traced) \<Rightarrow> 'b traced" where
  "bind_traced r f =
     (case r of
        (w, Inl e) \<Rightarrow> (w, Inl e)
      | (w, Inr x) \<Rightarrow> (case f x of (w', r') \<Rightarrow> (w @ w', r')))"

definition derivatives_traced :: "platform \<Rightarrow> DoublePendulum \<Rightarrow> ndarray \<Rightarrow> ndarray traced" where
  "derivatives_traced P self state = ([EvalDerivative], derivatives P self state)"

definition rk4_row_traced ::
  "platform \<Rightarrow> DoublePendulum \<Rightarrow> npfloat \<Rightarrow> ndarray \<Rightarrow> ndarray traced" where
  "rk4_row_traced P self dt_i yi =
     bind_traced (derivatives_traced P self yi) (\<lambda>k1.
     bind_traced (derivatives_traced P self (vadd P yi (smul P (fmul P (Fin 0.5) dt_i) k1))) (\<lambda>k2.
     bind_traced (derivatives_traced P self (vadd P yi (smul P (fmul P (Fin 0.5) dt_i) k2))) (\<lambda>k3.
     bind_traced (derivatives_traced P self (vadd P yi (smul P dt_i k3))) (\<lambda>k4.
       ([], Inr (vadd P yi (smul P (fdiv P dt_i (Fin 6))
              (vadd P (vadd P (vadd P k1 (smul P (Fin 2) k2)) (smul P (Fin 2) k3)) k4))))))))"

fun rk4_loop_traced ::
  "platform \<Rightarrow> DoublePendulum \<Rightarrow> npfloat \<Rightarrow> nat list \<Rightarrow> ndarray list \<Rightarrow> (ndarray list) traced" where
  "rk4_loop_traced P self dt [] Y = ([], Inr Y)"
| "rk4_loop_traced P self dt (i # rest) Y =
     (if Suc i < length Y
      then bind_traced (rk4_row_traced P self dt (Y ! i))
             (\<lambda>row. rk4_loop_traced P self dt rest (Y[Suc i := row]))
      else ([], Inl IndexError))"

definition integrate_traced ::
  "platform \<Rightarrow> DoublePendulum \<Rightarrow> ndarray \<Rightarrow> npfloat \<Rightarrow> npfloat \<Rightarrow> py_str \<Rightarrow>
     (npfloat list \<times> ndarray list) traced" where
  "integrate_traced P self y0 t_max dt method =
     (if dt \<le> Fin 0 then ([], Inl (ValueError StepNotPositive))
      else if t_max \<le> Fin 0 then ([], Inl (ValueError TmaxNotPositive))
      else if length y0 \<noteq> 4 then ([], Inl (ValueError BadShape))
      else
        bind_traced ([], np_arange P (Fin 0) (fadd P t_max (fdiv P dt (Fin 2))) dt) (\<lambda>t.
          (let N = length t
           in bind_traced ([BuildGrid], np_zeros P N 4) (\<lambda>Y.
                if N = 0 then ([AllocStates], Inl IndexError)
                else
                  (let Y = Y[0 := y0]
                   in if unicode_lower P method = py ''rk4''
                      then bind_traced ([AllocStates], Inr Y) (\<lambda>Y.
                           bind_traced (rk4_loop_traced P self dt [0..<N - 1] Y) (\<lambda>Y.
                             ([], Inr (t, Y))))
                      else ([AllocStates], Inl (NotImplementedError method)))))))"

section \<open>Closed forms\<close>

text \<open>
  The values of the local variables \<open>denom1\<close>, \<open>denom2\<close>, \<open>num1\<close> and \<open>num2\<close> of
  \<^verbatim>\<open>derivatives\<close>: the formulas of section 4.1 of the specification, evaluated in
  floating point in the order of the source.
\<close>

definition fl_denom1 :: "platform \<Rightarrow> DoublePendulum \<Rightarrow> npfloat \<Rightarrow> npfloat \<Rightarrow> npfloat" where
  "fl_denom1 P p theta1 theta2 =
     fmul P (Fin (L1 p))
       (fadd P (Fin (m1 p))
          (fmul P (fmul P (Fin (m2 p)) (np_sin P (fsub P theta1 theta2)))
             (np_sin P (fsub P theta1 theta2))))"

definition fl_denom2 :: "platform \<Rightarrow> DoublePendulum \<Rightarrow> npfloat \<Rightarrow> npfloat \<Rightarrow> npfloat" where
  "fl_denom2 P p theta1 theta2 =
     fmul P (Fin (L2 p))
       (fadd P (Fin (m1 p))
          (fmul P (fmul P (Fin (m2 p)) (np_sin P (fsub P theta1 theta2)))
             (np_sin P (fsub P theta1 theta2))))"

definition fl_num1 ::
  "platform \<Rightarrow> DoublePendulum \<Rightarrow> npfloat \<Rightarrow> npfloat \<Rightarrow> npfloat \<Rightarrow> npfloat \<Rightarrow> npfloat" where
  "fl_num1 P p theta1 theta2 omega1 omega2 =
     fsub P
       (fsub P
          (fmul P (fmul P (fmul P (Fin (m2 p)) (Fin (g p))) (np_sin P theta2))
             (np_cos P (fsub P theta1 theta2)))
          (fmul P (fmul P (Fin (m2 p)) (np_sin P (fsub P theta1 theta2)))
             (fadd P
                (fmul P (fmul P (Fin (L1 p)) (np_pow P omega1 2)) (np_cos P (fsub P theta1 theta2)))
                (fmul P (Fin (L2 p)) (np_pow P omega2 2)))))
       (fmul P (fmul P (fadd P (Fin (m1 p)) (Fin (m2 p))) (Fin (g p))) (np_sin P theta1))"

definition fl_num2 ::
  "platform \<Rightarrow> DoublePendulum \<Rightarrow> npfloat \<Rightarrow> npfloat \<Rightarrow> npfloat \<Rightarrow> npfloat \<Rightarrow> npfloat" where
  "fl_num2 P p theta1 theta2 omega1 omega2 =
     fadd P
       (fmul P (fadd P (Fin (m1 p)) (Fin (m2 p)))
          (fadd P
             (fsub P
                (fmul P (fmul P (Fin (L1 p)) (np_pow P omega1 2)) (np_sin P (fsub P theta1 theta2)))
                (fmul P (Fin (g p)) (np_sin P theta2)))
             (fmul P (fmul P (Fin (g p)) (np_sin P theta1)) (np_cos P (fsub P theta1 theta2)))))
       (fmul P
          (fmul P (fmul P (fmul P (Fin (m2 p)) (Fin (L2 p))) (np_pow P omega2 2))
             (np_sin P (fsub P theta1 theta2)))
          (np_cos P (fsub P theta1 theta2)))"

text \<open>
  The same formulas as section 4.1 of the specification writes them, over the reals,
  for a state \<open>(theta1, theta2, omega1, omega2)\<close>.
\<close>

definition spec_denom1 :: "DoublePendulum \<Rightarrow> real \<Rightarrow> real \<Rightarrow> real" where
  "spec_denom1 p theta1 theta2 = L1 p * (m1 p + m2 p * (sin (theta1 - theta2))\<^sup>2)"

definition spec_denom2 :: "DoublePendulum \<Rightarrow> real \<Rightarrow> real \<Rightarrow> real" where
  "spec_denom2 p theta1 theta2 = L2 p * (m1 p + m2 p * (sin (theta1 - theta2))\<^sup>2)"

definition spec_num1 :: "DoublePendulum \<Rightarrow> real \<Rightarrow> real \<Rightarrow> real \<Rightarrow> real \<Rightarrow> real" where
  "spec_num1 p theta1 theta2 omega1 omega2 =
     m2 p * g p * sin theta2 * cos (theta1 - theta2)
     - m2 p * sin (theta1 - theta2)
         * (L1 p * omega1\<^sup>2 * cos (theta1 - theta2) + L2 p * omega2\<^sup>2)
     - (m1 p + m2 p) * g p * sin theta1"

definition spec_num2 :: "DoublePendulum \<Rightarrow> real \<Rightarrow> real \<Rightarrow> real \<Rightarrow> real \<Rightarrow> real" where
  "spec_num2 p theta1 theta2 omega1 omega2 =
     (m1 p + m2 p)
       * (L1 p * omega1\<^sup>2 * sin (theta1 - theta2) - g p * sin theta2
          + g p * sin theta1 * cos (theta1 - theta2))
     + m2 p * L2 p * omega2\<^sup>2 * sin (theta1 - theta2) * cos (theta1 - theta2)"

text \<open>
  The float quotient from which \<^verbatim>\<open>np.arange(0.0, t_max + dt / 2, dt)\<close> takes the length
  of the time grid.
\<close>

definition grid_quotient :: "platform \<Rightarrow> npfloat \<Rightarrow> npfloat \<Rightarrow> npfloat" where
  "grid_quotient P t_max dt =
     fdiv P (fsub P (fadd P t_max (fdiv P dt (Fin 2))) (Fin 0)) dt"

text \<open>
  \<open>x\<close> is a float64 of the platform: an operation whose exact result is \<open>x\<close> returns
  \<open>x\<close>. The rounding of a platform is that of floats when zero is a float and so is
  every finite result of an operation.
\<close>

definition is_float :: "platform \<Rightarrow> real \<Rightarrow> bool" where
  "is_float P x = (rnd P x = Fin x)"

definition float_rounding :: "platform \<Rightarrow> bool" where
  "float_rounding P = (is_float P 0 \<and> (\<forall>x y. rnd P x = Fin y \<longrightarrow> is_float P y))"

section \<open>Platforms and inputs to run the definitions on\<close>

text \<open>
  Lower-casing of the ASCII letters, and of the ASCII letters and the Kelvin sign
  (U+212A, which \<^verbatim>\<open>str.lower\<close> maps to \<open>k\<close>).
\<close>

definition ascii_lower :: "nat \<Rightarrow> nat" where
  "ascii_lower c = (if 65 \<le> c \<and> c \<le> 90 then c + 32 else c)"

definition lower_cp :: "nat \<Rightarrow> nat" where
  "lower_cp c = (if c = 8490 then 107 else ascii_lower c)"

definition is_ascii :: "py_str \<Rightarrow> bool" where
  "is_ascii s = list_all (\<lambda>c. c < 128) s"

text \<open>The platform lower-cases ASCII strings as ASCII does.\<close>

definition ascii_lower_ok :: "platform \<Rightarrow> bool" where
  "ascii_lower_ok P = (\<forall>s. is_ascii s \<longrightarrow> unicode_lower P s = map ascii_lower s)"

text \<open>
  The platform on which no operation rounds or overflows: its arithmetic is that of the
  reals, in which the specification's formulas are written.
\<close>

definition exact_platform :: platform where
  "exact_platform =
     \<lparr>rnd = Fin, libm_sin = sin, libm_cos = cos, libm_pow = (\<lambda>a n. Fin (a ^ n)),
      max_intp = 2 ^ 63 - 1, memory = 2 ^ 30, unicode_lower = map lower_cp\<rparr>"

text \<open>
  The platform on which an operation does not round, and overflows as float64 does:
  a result of magnitude \<open>2^1024 - 2^970\<close> or more is an infinity.
\<close>

definition overflow_rnd :: "real \<Rightarrow> npfloat" where
  "overflow_rnd x =
     (if 2 ^ 1024 - 2 ^ 970 \<le> \<bar>x\<bar> then (if 0 < x then PInf else NInf) else Fin x)"

definition overflow_platform :: platform where
  "overflow_platform =
     exact_platform\<lparr>rnd := overflow_rnd, libm_pow := (\<lambda>a n. overflow_rnd (a ^ n))\<rparr>"

text \<open>A float64 whose double and whose square overflow.\<close>

definition huge :: real where
  "huge = 2 ^ 1023"

definition unit_pendulum :: DoublePendulum where
  "unit_pendulum = \<lparr>L1 = 1, L2 = 1, m1 = 1, m2 = 1, g = 9.81\<rparr>"

definition at_rest :: ndarray where
  "at_rest = [Fin 0, Fin 0, Fin 0, Fin 0]"

text \<open>The model that the module builds when it is run as a script.\<close>

definition example_pendulum :: DoublePendulum where
  "example_pendulum = \<lparr>L1 = 2, L2 = 2, m1 = 1, m2 = 3, g = 9.81\<rparr>"

text \<open>A valid model whose first denominator stays below the guard threshold.\<close>

definition tiny_pendulum :: DoublePendulum where
  "tiny_pendulum = \<lparr>L1 = 1 / 10 ^ 9, L2 = 1, m1 = 1, m2 = 1, g = 9.81\<rparr>"

section \<open>Basic facts\<close>

lemma length4_cases:
  assumes "length xs = 4"
  obtains a b c d where "xs = [a, b, c, d]"
proof -
  from assms obtain a r1 where 1: "xs = a # r1" "length r1 = 3" by (cases xs) auto
  then obtain b r2 where 2: "r1 = b # r2" "length r2 = 2" by (cases r1) auto
  then obtain c r3 where 3: "r2 = c # r3" "length r3 = 1" by (cases r2) auto
  then obtain d where 4: "r3 = [d]" by (cases r3) auto
  from 1 2 3 4 that show thesis by simp
qed

lemma bind_result_simps:
  "bind_result (Inr x) f = f x" "bind_result (Inl e) f = Inl e"
  by (simp_all add: bind_result_def)

lemma derivatives_unfold:
  "derivatives P p [t1, t2, w1, w2] =
     (if \<bar>fl_denom1 P p t1 t2\<bar> < Fin eps \<or> \<bar>fl_denom2 P p t1 t2\<bar> < Fin eps
      then Inr [w1, w2, Fin 0, Fin 0]
      else Inr [w1, w2,
                fdiv P (fl_num1 P p t1 t2 w1 w2) (fl_denom1 P p t1 t2),
                fdiv P (fl_num2 P p t1 t2 w1 w2) (fl_denom2 P p t1 t2)])"
  by (simp add: Let_def fl_denom1_def fl_denom2_def fl_num1_def fl_num2_def)

lemma derivatives_shape:
  assumes "length st = 4"
  shows "\<exists>a1 a2. derivatives P self st = Inr [st ! 2, st ! 3, a1, a2]"
proof -
  from assms obtain a b c d where "st = [a, b, c, d]" by (rule length4_cases)
  then show ?thesis by (simp add: derivatives_unfold del: derivatives.simps)
qed

lemma derivatives_unpack:
  assumes "length st \<noteq> 4"
  shows "derivatives P self st = Inl (ValueError UnpackMismatch)"
  using assms by (induction P self st rule: derivatives.induct) simp_all

lemma length_vadd: "length (vadd P xs ys) = min (length xs) (length ys)"
  by (simp add: vadd_def)

lemma length_smul: "length (smul P c xs) = length xs"
  by (simp add: smul_def)

lemma fmul_half: "fmul P (Fin 0.5) x = fdiv P x (Fin 2)"
  by (cases x) (simp_all add: signed_inf_def)

lemma rk4_row_stages:
  assumes "length yi = 4"
  shows "\<exists>k1 k2 k3 k4.
           length k1 = 4 \<and> length k2 = 4 \<and> length k3 = 4 \<and> length k4 = 4 \<and>
           derivatives P self yi = Inr k1 \<and>
           derivatives P self (vadd P yi (smul P (fdiv P dt (Fin 2)) k1)) = Inr k2 \<and>
           derivatives P self (vadd P yi (smul P (fdiv P dt (Fin 2)) k2)) = Inr k3 \<and>
           derivatives P self (vadd P yi (smul P dt k3)) = Inr k4 \<and>
           rk4_row P self dt yi =
             Inr (vadd P yi (smul P (fdiv P dt (Fin 6))
                    (vadd P (vadd P (vadd P k1 (smul P (Fin 2) k2)) (smul P (Fin 2) k3)) k4)))"
proof -
  have ok: "\<exists>k. length k = 4 \<and> derivatives P self st = Inr k" if "length st = 4" for st
    using derivatives_shape [OF that, of P self] by auto
  obtain k1 where k1: "length k1 = 4" "derivatives P self yi = Inr k1"
    using ok [OF assms] by blast
  have "length (vadd P yi (smul P (fdiv P dt (Fin 2)) k1)) = 4"
    using assms k1 by (simp add: length_vadd length_smul)
  then obtain k2 where k2: "length k2 = 4"
      "derivatives P self (vadd P yi (smul P (fdiv P dt (Fin 2)) k1)) = Inr k2"
    using ok by blast
  have "length (vadd P yi (smul P (fdiv P dt (Fin 2)) k2)) = 4"
    using assms k2 by (simp add: length_vadd length_smul)
  then obtain k3 where k3: "length k3 = 4"
      "derivatives P self (vadd P yi (smul P (fdiv P dt (Fin 2)) k2)) = Inr k3"
    using ok by blast
  have "length (vadd P yi (smul P dt k3)) = 4"
    using assms k3 by (simp add: length_vadd length_smul)
  then obtain k4 where k4: "length k4 = 4" "derivatives P self (vadd P yi (smul P dt k3)) = Inr k4"
    using ok by blast
  have "rk4_row P self dt yi =
          Inr (vadd P yi (smul P (fdiv P dt (Fin 6))
                 (vadd P (vadd P (vadd P k1 (smul P (Fin 2) k2)) (smul P (Fin 2) k3)) k4)))"
    using k1 k2 k3 k4 by (simp only: rk4_row_def fmul_half bind_result_simps)
  with k1 k2 k3 k4 show ?thesis by blast
qed

lemma rk4_row_length:
  assumes "length yi = 4"
  shows "\<exists>row. rk4_row P self dt yi = Inr row \<and> length row = 4"
proof -
  from rk4_row_stages [OF assms, of P self dt] obtain k1 k2 k3 k4 where
    len: "length k1 = 4" "length k2 = 4" "length k3 = 4" "length k4 = 4" and
    row: "rk4_row P self dt yi =
            Inr (vadd P yi (smul P (fdiv P dt (Fin 6))
                   (vadd P (vadd P (vadd P k1 (smul P (Fin 2) k2)) (smul P (Fin 2) k3)) k4)))"
    by blast
  from len assms row show ?thesis by (simp add: length_vadd length_smul)
qed

lemma rk4_loop_upt:
  assumes "n < length Y" and "\<forall>j<length Y. length (Y ! j) = 4"
  shows "\<exists>Y'. rk4_loop P self dt [k..<n] Y = Inr Y' \<and> length Y' = length Y \<and>
           (\<forall>j<length Y'. length (Y' ! j) = 4) \<and>
           (\<forall>j\<le>k. Y' ! j = Y ! j) \<and>
           (\<forall>i. k \<le> i \<and> i < n \<longrightarrow> rk4_row P self dt (Y' ! i) = Inr (Y' ! Suc i))"
  using assms
proof (induction "n - k" arbitrary: k Y)
  case 0
  then show ?case by auto
next
  case (Suc d)
  then have kn: "k < n" by simp
  then have upt: "[k..<n] = k # [Suc k..<n]" by (simp add: upt_conv_Cons)
  from kn Suc.prems have kY: "k < length Y" "Suc k < length Y" by simp_all
  then have "length (Y ! k) = 4" using Suc.prems by simp
  then obtain row where row: "rk4_row P self dt (Y ! k) = Inr row" "length row = 4"
    using rk4_row_length by blast
  let ?Y1 = "Y[Suc k := row]"
  have d: "d = n - Suc k" using Suc.hyps(2) by simp
  have len1: "n < length ?Y1" using Suc.prems by simp
  have rows1: "\<forall>j<length ?Y1. length (?Y1 ! j) = 4"
    using Suc.prems row kY by (auto simp: nth_list_update)
  from Suc.hyps(1) [OF d len1 rows1] obtain Y' where
    Y': "rk4_loop P self dt [Suc k..<n] ?Y1 = Inr Y'" "length Y' = length ?Y1"
        "\<forall>j<length Y'. length (Y' ! j) = 4"
        "\<forall>j\<le>Suc k. Y' ! j = ?Y1 ! j"
        "\<forall>i. Suc k \<le> i \<and> i < n \<longrightarrow> rk4_row P self dt (Y' ! i) = Inr (Y' ! Suc i)"
    by blast
  have run: "rk4_loop P self dt [k..<n] Y = Inr Y'"
    using upt kY row Y'(1) by (simp add: bind_result_def)
  have keep: "\<forall>j\<le>k. Y' ! j = Y ! j"
    using Y'(4) by (simp add: nth_list_update)
  have "Y' ! Suc k = row" using Y'(4) kY by simp
  moreover have "Y' ! k = Y ! k" using keep by simp
  ultimately have here: "rk4_row P self dt (Y' ! k) = Inr (Y' ! Suc k)" using row by simp
  have steps: "\<forall>i. k \<le> i \<and> i < n \<longrightarrow> rk4_row P self dt (Y' ! i) = Inr (Y' ! Suc i)"
  proof (intro allI impI)
    fix i assume "k \<le> i \<and> i < n"
    then consider "i = k" | "Suc k \<le> i \<and> i < n" by linarith
    then show "rk4_row P self dt (Y' ! i) = Inr (Y' ! Suc i)"
      using here Y'(5) by cases auto
  qed
  from run Y'(2,3) keep steps show ?case by simp
qed

lemma np_alloc_Inl:
  assumes "np_alloc P n = Inl e"
  shows "e = ValueError ArrayTooBig \<or> e = MemoryError"
  using assms by (auto simp: np_alloc_def split: if_splits)

lemma np_zeros_Inl:
  assumes "np_zeros P n m = Inl e"
  shows "e = ValueError ArrayTooBig \<or> e = MemoryError"
proof (cases "np_alloc P (n * m)")
  case (Inl e')
  with assms have "e' = e" by (simp add: np_zeros_def bind_result_simps)
  with Inl np_alloc_Inl show ?thesis by blast
next
  case (Inr u)
  with assms show ?thesis by (simp add: np_zeros_def bind_result_simps)
qed

lemma np_zeros_Inr:
  assumes "np_zeros P n m = Inr Y"
  shows "Y = replicate n (replicate m (Fin 0))"
  using assms by (cases "np_alloc P (n * m)") (simp_all add: np_zeros_def bind_result_simps)

lemma np_zeros_ValueError:
  "(\<exists>ve. np_zeros P n m = Inl (ValueError ve)) \<longleftrightarrow> max_intp P < 8 * int (n * m)"
  by (auto simp: np_zeros_def np_alloc_def bind_result_simps)

lemma np_arange_Inl:
  assumes "np_arange P start stop step = Inl e"
  shows "e = ValueError ArangeLength \<or> e = ValueError ArrayTooBig \<or> e = MemoryError"
proof (cases "fdiv P (fsub P stop start) step")
  case (Fin q)
  show ?thesis
  proof (cases "\<lceil>q\<rceil> < - max_intp P - 1 \<or> max_intp P < \<lceil>q\<rceil>")
    case True
    with Fin assms show ?thesis by (auto simp: np_arange_def)
  next
    case False
    show ?thesis
    proof (cases "np_alloc P (nat \<lceil>q\<rceil>)")
      case (Inl e')
      with Fin False assms have "e' = e" by (simp add: np_arange_def bind_result_simps)
      with Inl np_alloc_Inl show ?thesis by blast
    next
      case (Inr u)
      with Fin False assms show ?thesis by (simp add: np_arange_def bind_result_simps)
    qed
  qed
qed (use assms in \<open>simp_all add: np_arange_def\<close>)

lemma np_arange_Inr:
  assumes "np_arange P start stop step = Inr t"
  shows "\<exists>q. fdiv P (fsub P stop start) step = Fin q \<and> \<lceil>q\<rceil> \<le> max_intp P \<and>
             t = arange_fill P start step (nat \<lceil>q\<rceil>)"
proof (cases "fdiv P (fsub P stop start) step")
  case (Fin q)
  show ?thesis
  proof (cases "\<lceil>q\<rceil> < - max_intp P - 1 \<or> max_intp P < \<lceil>q\<rceil>")
    case True
    with Fin assms show ?thesis by (simp add: np_arange_def)
  next
    case False
    with Fin assms show ?thesis
      by (cases "np_alloc P (nat \<lceil>q\<rceil>)") (simp_all add: np_arange_def bind_result_simps)
  qed
qed (use assms in \<open>simp_all add: np_arange_def\<close>)

lemma length_arange_fill: "length (arange_fill P start step n) = n"
  by (simp add: arange_fill_def Let_def)

lemma nth_arange_fill:
  assumes "k < n"
  shows "arange_fill P start step n ! k =
           (if k = 0 then start
            else if k = 1 then fadd P start step
            else fadd P start (fmul P (Fin (real k)) (fsub P (fadd P start step) start)))"
  using assms by (simp add: arange_fill_def Let_def)

lemma index_below_ceiling: "k < nat \<lceil>q :: real\<rceil> \<longleftrightarrow> real k < q"
proof -
  have "k < nat \<lceil>q\<rceil> \<longleftrightarrow> int k < \<lceil>q\<rceil>" by linarith
  also have "\<dots> \<longleftrightarrow> real k < q" by (simp add: less_ceiling_iff)
  finally show ?thesis .
qed

lemma integrate_invalid:
  "dt \<le> Fin 0 \<Longrightarrow> integrate P self y0 t_max dt method = Inl (ValueError StepNotPositive)"
  "\<not> dt \<le> Fin 0 \<Longrightarrow> t_max \<le> Fin 0 \<Longrightarrow>
     integrate P self y0 t_max dt method = Inl (ValueError TmaxNotPositive)"
  "\<not> dt \<le> Fin 0 \<Longrightarrow> \<not> t_max \<le> Fin 0 \<Longrightarrow> length y0 \<noteq> 4 \<Longrightarrow>
     integrate P self y0 t_max dt method = Inl (ValueError BadShape)"
  by (simp_all add: integrate_def)

lemma integrate_arange_fails:
  assumes "\<not> dt \<le> Fin 0" and "\<not> t_max \<le> Fin 0" and "length y0 = 4"
    and "np_arange P (Fin 0) (fadd P t_max (fdiv P dt (Fin 2))) dt = Inl e"
  shows "integrate P self y0 t_max dt method = Inl e"
  using assms by (simp add: integrate_def bind_result_simps)

lemma integrate_zeros_fails:
  assumes "\<not> dt \<le> Fin 0" and "\<not> t_max \<le> Fin 0" and "length y0 = 4"
    and "np_arange P (Fin 0) (fadd P t_max (fdiv P dt (Fin 2))) dt = Inr t"
    and "np_zeros P (length t) 4 = Inl e"
  shows "integrate P self y0 t_max dt method = Inl e"
  using assms by (simp add: integrate_def bind_result_simps Let_def)

lemma integrate_empty_grid:
  assumes "\<not> dt \<le> Fin 0" and "\<not> t_max \<le> Fin 0" and "length y0 = 4"
    and "np_arange P (Fin 0) (fadd P t_max (fdiv P dt (Fin 2))) dt = Inr []"
    and "np_zeros P 0 4 = Inr Y0"
  shows "integrate P self y0 t_max dt method = Inl IndexError"
  using assms by (simp add: integrate_def bind_result_simps)

lemma integrate_unsupported:
  assumes "\<not> dt \<le> Fin 0" and "\<not> t_max \<le> Fin 0" and "length y0 = 4"
    and "np_arange P (Fin 0) (fadd P t_max (fdiv P dt (Fin 2))) dt = Inr t" and "t \<noteq> []"
    and "np_zeros P (length t) 4 = Inr Y0"
    and "unicode_lower P method \<noteq> py ''rk4''"
  shows "integrate P self y0 t_max dt method = Inl (NotImplementedError method)"
  using assms by (simp add: integrate_def bind_result_simps Let_def)

lemma integrate_rk4:
  assumes "\<not> dt \<le> Fin 0" and "\<not> t_max \<le> Fin 0" and "length y0 = 4"
    and "np_arange P (Fin 0) (fadd P t_max (fdiv P dt (Fin 2))) dt = Inr t" and "t \<noteq> []"
    and "np_zeros P (length t) 4 = Inr Y0"
    and "unicode_lower P method = py ''rk4''"
  shows "\<exists>Y. integrate P self y0 t_max dt method = Inr (t, Y) \<and>
           length Y = length t \<and>
           (\<forall>j<length Y. length (Y ! j) = 4) \<and>
           Y ! 0 = y0 \<and>
           (\<forall>i. Suc i < length Y \<longrightarrow> rk4_row P self dt (Y ! i) = Inr (Y ! Suc i))"
proof -
  let ?N = "length t"
  let ?Y0 = "Y0[0 := y0]"
  have Y0: "Y0 = replicate ?N (replicate 4 (Fin 0))" using assms(6) by (rule np_zeros_Inr)
  have N: "0 < ?N" using assms(5) by simp
  have len: "?N - 1 < length ?Y0" using N Y0 by simp
  have rows: "\<forall>j<length ?Y0. length (?Y0 ! j) = 4"
    using assms(3) N Y0 by (auto simp: nth_list_update)
  from rk4_loop_upt [OF len rows, of P self dt 0] obtain Y where
    Y: "rk4_loop P self dt [0..<?N - 1] ?Y0 = Inr Y" "length Y = length ?Y0"
       "\<forall>j<length Y. length (Y ! j) = 4"
       "\<forall>j\<le>0. Y ! j = ?Y0 ! j"
       "\<forall>i. 0 \<le> i \<and> i < ?N - 1 \<longrightarrow> rk4_row P self dt (Y ! i) = Inr (Y ! Suc i)"
    by blast
  have run: "integrate P self y0 t_max dt method = Inr (t, Y)"
    using assms N Y(1) by (simp add: integrate_def Let_def bind_result_simps)
  have first: "Y ! 0 = y0" using Y(4) N Y0 by simp
  have lenY: "length Y = ?N" using Y(2) Y0 by simp
  have steps: "\<forall>i. Suc i < length Y \<longrightarrow> rk4_row P self dt (Y ! i) = Inr (Y ! Suc i)"
    using lenY Y(5) by auto
  from run lenY Y(3) first steps show ?thesis by simp
qed

lemma integrate_Inr_cases:
  assumes "integrate P self y0 t_max dt method = Inr (t, Y)"
  shows "\<not> dt \<le> Fin 0 \<and> \<not> t_max \<le> Fin 0 \<and> length y0 = 4 \<and>
         np_arange P (Fin 0) (fadd P t_max (fdiv P dt (Fin 2))) dt = Inr t \<and> t \<noteq> [] \<and>
         np_zeros P (length t) 4 = Inr (replicate (length t) (replicate 4 (Fin 0))) \<and>
         unicode_lower P method = py ''rk4''"
proof -
  have checks: "\<not> dt \<le> Fin 0" "\<not> t_max \<le> Fin 0" "length y0 = 4"
    using assms by (auto simp: integrate_def split: if_splits)
  obtain t' where grid: "np_arange P (Fin 0) (fadd P t_max (fdiv P dt (Fin 2))) dt = Inr t'"
  proof (cases "np_arange P (Fin 0) (fadd P t_max (fdiv P dt (Fin 2))) dt")
    case (Inl e)
    from integrate_arange_fails [OF checks Inl] assms show ?thesis by simp
  next
    case (Inr t')
    then show ?thesis by (rule that)
  qed
  obtain Y0 where zeros: "np_zeros P (length t') 4 = Inr Y0"
  proof (cases "np_zeros P (length t') 4")
    case (Inl e)
    from integrate_zeros_fails [OF checks grid Inl] assms show ?thesis by simp
  next
    case (Inr Y0)
    then show ?thesis by (rule that)
  qed
  have nonempty: "t' \<noteq> []"
  proof
    assume "t' = []"
    with grid zeros have "np_arange P (Fin 0) (fadd P t_max (fdiv P dt (Fin 2))) dt = Inr []"
      "np_zeros P 0 4 = Inr Y0" by simp_all
    from integrate_empty_grid [OF checks this] assms show False by simp
  qed
  have name: "unicode_lower P method = py ''rk4''"
  proof (rule ccontr)
    assume "unicode_lower P method \<noteq> py ''rk4''"
    from integrate_unsupported [OF checks grid nonempty zeros this] assms show False by simp
  qed
  from integrate_rk4 [OF checks grid nonempty zeros name, of self] assms have "t' = t" by auto
  with checks grid zeros nonempty name np_zeros_Inr [OF zeros] show ?thesis by simp
qed

lemma vadd_smul_nth:
  assumes "length xs = 4" and "length ks = 4"
  shows "vadd P xs (smul P c ks) = map (\<lambda>j. fadd P (xs ! j) (fmul P c (ks ! j))) [0..<4]"
  using assms by (intro nth_equalityI) (simp_all add: vadd_def smul_def)

lemma rk4_sum_nth:
  assumes "length k1 = 4" and "length k2 = 4" and "length k3 = 4" and "length k4 = 4"
    and "j < 4"
  shows "vadd P (vadd P (vadd P k1 (smul P (Fin 2) k2)) (smul P (Fin 2) k3)) k4 ! j =
           fadd P (fadd P (fadd P (k1 ! j) (fmul P (Fin 2) (k2 ! j))) (fmul P (Fin 2) (k3 ! j)))
             (k4 ! j)"
  using assms by (simp add: vadd_def smul_def)

section \<open>The trajectory of a successful call\<close>

text \<open>
  C1. Every successful call of \<open>integrate\<close> with method \<open>rk4\<close> returns a trajectory whose
  first row is \<open>y0\<close> and whose every next row is the classical RK4 update of the row
  before it: with \<open>k1\<close> to \<open>k4\<close> the derivatives at the row, at the row plus
  \<open>dt / 2\<close> times \<open>k1\<close>, at the row plus \<open>dt / 2\<close> times \<open>k2\<close> and at the row plus
  \<open>dt\<close> times \<open>k3\<close>, component \<open>j\<close> of the next row is component \<open>j\<close> of the row plus
  \<open>dt / 6\<close> times \<open>k1 + 2 k2 + 2 k3 + k4\<close> at \<open>j\<close>, for each of the four components.
  The sums, products and quotients are those of the floating-point arithmetic, on
  every platform.
\<close>

theorem integrate_rk4_update:
  assumes "integrate P self y0 t_max dt (py ''rk4'') = Inr (t, Y)"
  shows "Y ! 0 = y0 \<and>
         (\<forall>i. Suc i < length Y \<longrightarrow>
            (\<exists>k1 k2 k3 k4.
               derivatives P self (Y ! i) = Inr k1 \<and>
               derivatives P self
                 (map (\<lambda>j. fadd P (Y ! i ! j) (fmul P (fdiv P dt (Fin 2)) (k1 ! j))) [0..<4]) = Inr k2 \<and>
               derivatives P self
                 (map (\<lambda>j. fadd P (Y ! i ! j) (fmul P (fdiv P dt (Fin 2)) (k2 ! j))) [0..<4]) = Inr k3 \<and>
               derivatives P self
                 (map (\<lambda>j. fadd P (Y ! i ! j) (fmul P dt (k3 ! j))) [0..<4]) = Inr k4 \<and>
               length (Y ! Suc i) = 4 \<and>
               (\<forall>j<4. Y ! Suc i ! j =
                  fadd P (Y ! i ! j)
                    (fmul P (fdiv P dt (Fin 6))
                       (fadd P
                          (fadd P (fadd P (k1 ! j) (fmul P (Fin 2) (k2 ! j)))
                             (fmul P (Fin 2) (k3 ! j)))
                          (k4 ! j))))))"
proof -
  from integrate_Inr_cases [OF assms] have
    valid: "\<not> dt \<le> Fin 0" "\<not> t_max \<le> Fin 0" "length y0 = 4"
      "np_arange P (Fin 0) (fadd P t_max (fdiv P dt (Fin 2))) dt = Inr t" "t \<noteq> []"
      "np_zeros P (length t) 4 = Inr (replicate (length t) (replicate 4 (Fin 0)))"
      "unicode_lower P (py ''rk4'') = py ''rk4''"
    by simp_all
  from integrate_rk4 [OF valid, of self] assms have
    rows: "\<forall>j<length Y. length (Y ! j) = 4" and first: "Y ! 0 = y0" and
    steps: "\<forall>i. Suc i < length Y \<longrightarrow> rk4_row P self dt (Y ! i) = Inr (Y ! Suc i)"
    by auto
  have "\<exists>k1 k2 k3 k4.
          derivatives P self (Y ! i) = Inr k1 \<and>
          derivatives P self
            (map (\<lambda>j. fadd P (Y ! i ! j) (fmul P (fdiv P dt (Fin 2)) (k1 ! j))) [0..<4]) = Inr k2 \<and>
          derivatives P self
            (map (\<lambda>j. fadd P (Y ! i ! j) (fmul P (fdiv P dt (Fin 2)) (k2 ! j))) [0..<4]) = Inr k3 \<and>
          derivatives P self
            (map (\<lambda>j. fadd P (Y ! i ! j) (fmul P dt (k3 ! j))) [0..<4]) = Inr k4 \<and>
          length (Y ! Suc i) = 4 \<and>
          (\<forall>j<4. Y ! Suc i ! j =
             fadd P (Y ! i ! j)
               (fmul P (fdiv P dt (Fin 6))
                  (fadd P
                     (fadd P (fadd P (k1 ! j) (fmul P (Fin 2) (k2 ! j)))
                        (fmul P (Fin 2) (k3 ! j)))
                     (k4 ! j))))"
    if i: "Suc i < length Y" for i
  proof -
    let ?yi = "Y ! i"
    have len: "length ?yi = 4" using rows i by simp
    from rk4_row_stages [OF len, of P self dt] obtain k1 k2 k3 k4 where
      k: "length k1 = 4" "length k2 = 4" "length k3 = 4" "length k4 = 4" and
      d1: "derivatives P self ?yi = Inr k1" and
      d2: "derivatives P self (vadd P ?yi (smul P (fdiv P dt (Fin 2)) k1)) = Inr k2" and
      d3: "derivatives P self (vadd P ?yi (smul P (fdiv P dt (Fin 2)) k2)) = Inr k3" and
      d4: "derivatives P self (vadd P ?yi (smul P dt k3)) = Inr k4" and
      row: "rk4_row P self dt ?yi =
              Inr (vadd P ?yi (smul P (fdiv P dt (Fin 6))
                     (vadd P (vadd P (vadd P k1 (smul P (Fin 2) k2)) (smul P (Fin 2) k3)) k4)))"
      by blast
    let ?sum = "vadd P (vadd P (vadd P k1 (smul P (Fin 2) k2)) (smul P (Fin 2) k3)) k4"
    have next_row: "Y ! Suc i = vadd P ?yi (smul P (fdiv P dt (Fin 6)) ?sum)"
      using steps i row by simp
    have lsum: "length ?sum = 4" using k by (simp add: length_vadd length_smul)
    have comp: "Y ! Suc i ! j =
                  fadd P (?yi ! j)
                    (fmul P (fdiv P dt (Fin 6))
                       (fadd P
                          (fadd P (fadd P (k1 ! j) (fmul P (Fin 2) (k2 ! j)))
                             (fmul P (Fin 2) (k3 ! j)))
                          (k4 ! j)))"
      if "j < 4" for j
    proof -
      have "Y ! Suc i ! j = fadd P (?yi ! j) (fmul P (fdiv P dt (Fin 6)) (?sum ! j))"
        using that by (simp add: next_row vadd_smul_nth [OF len lsum])
      then show ?thesis using rk4_sum_nth [OF k that, of P] by simp
    qed
    have l4: "length (Y ! Suc i) = 4" using rows i by simp
    from d1 d2 d3 d4 l4 comp show ?thesis
      by (simp add: vadd_smul_nth [OF len] k)
  qed
  with first show ?thesis by blast
qed

lemma exact_platform_simps:
  "rnd exact_platform x = Fin x"
  "libm_sin exact_platform = sin"
  "libm_cos exact_platform = cos"
  "libm_pow exact_platform a n = Fin (a ^ n)"
  "max_intp exact_platform = 2 ^ 63 - 1"
  "memory exact_platform = 2 ^ 30"
  "unicode_lower exact_platform s = map lower_cp s"
  by (simp_all add: exact_platform_def)

lemma lower_rk4: "unicode_lower exact_platform (py ''rk4'') = py ''rk4''"
  by (simp add: exact_platform_simps py_def lower_cp_def ascii_lower_def)

lemma lower_euler: "unicode_lower exact_platform (py ''euler'') \<noteq> py ''rk4''"
  by (simp add: exact_platform_simps py_def)

lemma upt_0_2: "[0..<2] = [0, 1]"
  by (simp add: upt_conv_Cons)

lemma upt_0_3: "[0..<3] = [0, 1, 2]"
  by (simp add: upt_conv_Cons)

lemma np_alloc_small:
  assumes "n \<le> 2 ^ 30"
  shows "np_alloc exact_platform n = Inr ()"
proof -
  have "int n \<le> int (2 ^ 30)" using assms by (simp only: of_nat_le_iff)
  then have "8 * int n \<le> 2 ^ 63 - 1" by simp
  then show ?thesis using assms by (simp add: np_alloc_def exact_platform_simps)
qed

lemma np_zeros_small:
  assumes "n * m \<le> 2 ^ 30"
  shows "np_zeros exact_platform n m = Inr (replicate n (replicate m (Fin 0)))"
  using np_alloc_small [OF assms] by (simp add: np_zeros_def bind_result_simps)

lemma np_arange_exact:
  assumes "step \<noteq> 0" and "0 \<le> (stop - start) / step" and "(stop - start) / step \<le> 2 ^ 30"
  shows "np_arange exact_platform (Fin start) (Fin stop) (Fin step) =
           Inr (arange_fill exact_platform (Fin start) (Fin step) (nat \<lceil>(stop - start) / step\<rceil>))"
proof -
  let ?q = "(stop - start) / step"
  have q: "fdiv exact_platform (fsub exact_platform (Fin stop) (Fin start)) (Fin step) = Fin ?q"
    using assms(1) by (simp add: fsub_def exact_platform_simps)
  have lo: "0 \<le> \<lceil>?q\<rceil>" using assms(2) by linarith
  have "\<lceil>?q\<rceil> \<le> \<lceil>2 ^ 30 :: real\<rceil>" using assms(3) by (rule ceiling_mono)
  then have hi: "\<lceil>?q\<rceil> \<le> 2 ^ 30" by simp
  then have hi': "\<lceil>?q\<rceil> \<le> 2 ^ 63 - 1" by simp
  have "nat \<lceil>?q\<rceil> \<le> 2 ^ 30" using hi by (simp add: nat_le_iff)
  then have "np_alloc exact_platform (nat \<lceil>?q\<rceil>) = Inr ()" by (rule np_alloc_small)
  with q lo hi' show ?thesis
    by (simp add: np_arange_def exact_platform_simps bind_result_simps)
qed

lemma arange_fill_exact:
  "arange_fill exact_platform (Fin 0) (Fin d) n = map (\<lambda>i. Fin (real i * d)) [0..<n]"
  by (simp add: arange_fill_def Let_def fsub_def exact_platform_simps)

lemma derivatives_at_rest:
  "derivatives exact_platform unit_pendulum at_rest = Inr at_rest"
  by (simp add: at_rest_def unit_pendulum_def fsub_def eps_def exact_platform_simps Let_def)

lemma rk4_row_at_rest: "rk4_row exact_platform unit_pendulum (Fin d) at_rest = Inr at_rest"
  using derivatives_at_rest
  by (simp add: rk4_row_def bind_result_simps at_rest_def vadd_def smul_def exact_platform_simps
      del: derivatives.simps)

lemma grid_exact:
  assumes "0 < d" and "0 < T" and "(T + d / 2) / d \<le> 2 ^ 28"
  shows "np_arange exact_platform (Fin 0)
           (fadd exact_platform (Fin T) (fdiv exact_platform (Fin d) (Fin 2))) (Fin d) =
           Inr (map (\<lambda>i. Fin (real i * d)) [0..<nat \<lceil>(T + d / 2) / d\<rceil>])"
proof -
  have stop: "fadd exact_platform (Fin T) (fdiv exact_platform (Fin d) (Fin 2)) = Fin (T + d / 2)"
    by (simp add: exact_platform_simps)
  have 1: "d \<noteq> 0" using assms(1) by simp
  have 2: "0 \<le> (T + d / 2 - 0) / d" using assms(1,2) by simp
  have "(T + d / 2) / d \<le> 2 ^ 30" using assms(3) by simp
  then have 3: "(T + d / 2 - 0) / d \<le> 2 ^ 30" by simp
  from np_arange_exact [OF 1 2 3] show ?thesis
    by (simp only: stop arange_fill_exact diff_zero)
qed

lemma integrate_at_rest:
  assumes "0 < d" and "0 < T" and "(T + d / 2) / d \<le> 2 ^ 28"
    and "nat \<lceil>(T + d / 2) / d\<rceil> = n" and "unicode_lower exact_platform m = py ''rk4''"
  shows "integrate exact_platform unit_pendulum at_rest (Fin T) (Fin d) m =
           Inr (map (\<lambda>i. Fin (real i * d)) [0..<n], replicate n at_rest)"
proof -
  let ?t = "map (\<lambda>i. Fin (real i * d)) [0..<n]"
  have checks: "\<not> Fin d \<le> Fin 0" "\<not> Fin T \<le> Fin 0" "length at_rest = 4"
    using assms(1,2) by (simp_all add: at_rest_def)
  have grid: "np_arange exact_platform (Fin 0)
                (fadd exact_platform (Fin T) (fdiv exact_platform (Fin d) (Fin 2))) (Fin d) = Inr ?t"
    using grid_exact [OF assms(1-3)] assms(4) by simp
  have "0 < (T + d / 2) / d" using assms(1,2) by simp
  then have "0 < \<lceil>(T + d / 2) / d\<rceil>" by simp
  then have "0 < nat \<lceil>(T + d / 2) / d\<rceil>" by (simp only: zero_less_nat_eq)
  then have n: "0 < n" by (simp only: assms(4))
  then have nonempty: "?t \<noteq> []" by simp
  have "\<lceil>(T + d / 2) / d\<rceil> \<le> \<lceil>2 ^ 28 :: real\<rceil>" using assms(3) by (rule ceiling_mono)
  then have "\<lceil>(T + d / 2) / d\<rceil> \<le> int (2 ^ 28)" by simp
  then have "nat \<lceil>(T + d / 2) / d\<rceil> \<le> 2 ^ 28" by (simp only: nat_le_iff)
  then have "n \<le> 2 ^ 28" by (simp only: assms(4))
  then have "length ?t * 4 \<le> 2 ^ 30" by simp
  then have zeros: "np_zeros exact_platform (length ?t) 4 =
                      Inr (replicate (length ?t) (replicate 4 (Fin 0)))"
    by (rule np_zeros_small)
  from integrate_rk4 [OF checks grid nonempty zeros assms(5), of unit_pendulum]
  obtain Y where
    run: "integrate exact_platform unit_pendulum at_rest (Fin T) (Fin d) m = Inr (?t, Y)"
    and len: "length Y = n" and first: "Y ! 0 = at_rest"
    and steps: "\<forall>i. Suc i < length Y \<longrightarrow>
                  rk4_row exact_platform unit_pendulum (Fin d) (Y ! i) = Inr (Y ! Suc i)"
    by auto
  have rows: "Y ! i = at_rest" if "i < length Y" for i
    using that
  proof (induction i)
    case 0
    show ?case by (rule first)
  next
    case (Suc i)
    then have prev: "Y ! i = at_rest" by simp
    from steps Suc.prems
    have "rk4_row exact_platform unit_pendulum (Fin d) (Y ! i) = Inr (Y ! Suc i)" by blast
    then have "Inr (Y ! Suc i) = (Inr at_rest :: py_error + ndarray)"
      by (simp only: prev rk4_row_at_rest)
    then show ?case by (simp only: sum.inject)
  qed
  have "Y = replicate n at_rest"
    using len rows by (intro nth_equalityI) simp_all
  with run show ?thesis by simp
qed

lemma integrate_at_rest_3:
  "integrate exact_platform unit_pendulum at_rest (Fin 1) (Fin (1 / 2)) (py ''rk4'') =
     Inr ([Fin 0, Fin (1 / 2), Fin 1], [at_rest, at_rest, at_rest])"
proof -
  have n: "nat \<lceil>((1 :: real) + 1 / 2 / 2) / (1 / 2)\<rceil> = 3" by simp
  have "((1 :: real) + 1 / 2 / 2) / (1 / 2) \<le> 2 ^ 28" by simp
  from integrate_at_rest [OF _ _ this n lower_rk4] show ?thesis
    by (simp add: upt_0_3 numeral_3_eq_3)
qed

theorem integrate_rk4_update_witness:
  "integrate exact_platform unit_pendulum at_rest (Fin 1) (Fin (1 / 2)) (py ''rk4'') =
     Inr ([Fin 0, Fin (1 / 2), Fin 1], [at_rest, at_rest, at_rest]) \<and>
   [at_rest, at_rest, at_rest] ! 0 = at_rest \<and>
   (\<exists>k1 k2 k3 k4.
      derivatives exact_platform unit_pendulum at_rest = Inr k1 \<and>
      derivatives exact_platform unit_pendulum
        (map (\<lambda>j. fadd exact_platform (at_rest ! j)
                    (fmul exact_platform (fdiv exact_platform (Fin (1 / 2)) (Fin 2)) (k1 ! j)))
           [0..<4]) = Inr k2 \<and>
      derivatives exact_platform unit_pendulum
        (map (\<lambda>j. fadd exact_platform (at_rest ! j)
                    (fmul exact_platform (fdiv exact_platform (Fin (1 / 2)) (Fin 2)) (k2 ! j)))
           [0..<4]) = Inr k3 \<and>
      derivatives exact_platform unit_pendulum
        (map (\<lambda>j. fadd exact_platform (at_rest ! j) (fmul exact_platform (Fin (1 / 2)) (k3 ! j)))
           [0..<4]) = Inr k4 \<and>
      [at_rest, at_rest, at_rest] ! Suc 0 ! 3 =
        fadd exact_platform (at_rest ! 3)
          (fmul exact_platform (fdiv exact_platform (Fin (1 / 2)) (Fin 6))
             (fadd exact_platform
                (fadd exact_platform
                   (fadd exact_platform (k1 ! 3) (fmul exact_platform (Fin 2) (k2 ! 3)))
                   (fmul exact_platform (Fin 2) (k3 ! 3)))
                (k4 ! 3))))"
proof -
  note run = integrate_at_rest_3
  from integrate_rk4_update [OF run] have
    first: "[at_rest, at_rest, at_rest] ! 0 = at_rest" and
    step: "\<forall>i. Suc i < length [at_rest, at_rest, at_rest] \<longrightarrow>
      (\<exists>k1 k2 k3 k4.
         derivatives exact_platform unit_pendulum ([at_rest, at_rest, at_rest] ! i) = Inr k1 \<and>
         derivatives exact_platform unit_pendulum
           (map (\<lambda>j. fadd exact_platform ([at_rest, at_rest, at_rest] ! i ! j)
                       (fmul exact_platform (fdiv exact_platform (Fin (1 / 2)) (Fin 2)) (k1 ! j)))
              [0..<4]) = Inr k2 \<and>
         derivatives exact_platform unit_pendulum
           (map (\<lambda>j. fadd exact_platform ([at_rest, at_rest, at_rest] ! i ! j)
                       (fmul exact_platform (fdiv exact_platform (Fin (1 / 2)) (Fin 2)) (k2 ! j)))
              [0..<4]) = Inr k3 \<and>
         derivatives exact_platform unit_pendulum
           (map (\<lambda>j. fadd exact_platform ([at_rest, at_rest, at_rest] ! i ! j)
                       (fmul exact_platform (Fin (1 / 2)) (k3 ! j)))
              [0..<4]) = Inr k4 \<and>
         length ([at_rest, at_rest, at_rest] ! Suc i) = 4 \<and>
         (\<forall>j<4. [at_rest, at_rest, at_rest] ! Suc i ! j =
            fadd exact_platform ([at_rest, at_rest, at_rest] ! i ! j)
              (fmul exact_platform (fdiv exact_platform (Fin (1 / 2)) (Fin 6))
                 (fadd exact_platform
                    (fadd exact_platform
                       (fadd exact_platform (k1 ! j) (fmul exact_platform (Fin 2) (k2 ! j)))
                       (fmul exact_platform (Fin 2) (k3 ! j)))
                    (k4 ! j)))))"
    by blast+
  have lt: "Suc 0 < length [at_rest, at_rest, at_rest]" by simp
  from step [rule_format, OF lt] obtain k1 k2 k3 k4 where
    d: "derivatives exact_platform unit_pendulum ([at_rest, at_rest, at_rest] ! 0) = Inr k1"
       "derivatives exact_platform unit_pendulum
           (map (\<lambda>j. fadd exact_platform ([at_rest, at_rest, at_rest] ! 0 ! j)
                       (fmul exact_platform (fdiv exact_platform (Fin (1 / 2)) (Fin 2)) (k1 ! j)))
              [0..<4]) = Inr k2"
       "derivatives exact_platform unit_pendulum
           (map (\<lambda>j. fadd exact_platform ([at_rest, at_rest, at_rest] ! 0 ! j)
                       (fmul exact_platform (fdiv exact_platform (Fin (1 / 2)) (Fin 2)) (k2 ! j)))
              [0..<4]) = Inr k3"
       "derivatives exact_platform unit_pendulum
           (map (\<lambda>j. fadd exact_platform ([at_rest, at_rest, at_rest] ! 0 ! j)
                       (fmul exact_platform (Fin (1 / 2)) (k3 ! j)))
              [0..<4]) = Inr k4" and
    c: "\<forall>j<4. [at_rest, at_rest, at_rest] ! Suc 0 ! j =
            fadd exact_platform ([at_rest, at_rest, at_rest] ! 0 ! j)
              (fmul exact_platform (fdiv exact_platform (Fin (1 / 2)) (Fin 6))
                 (fadd exact_platform
                    (fadd exact_platform
                       (fadd exact_platform (k1 ! j) (fmul exact_platform (Fin 2) (k2 ! j)))
                       (fmul exact_platform (Fin 2) (k3 ! j)))
                    (k4 ! j)))"
    by blast
  from c have c3: "[at_rest, at_rest, at_rest] ! Suc 0 ! 3 =
            fadd exact_platform ([at_rest, at_rest, at_rest] ! 0 ! 3)
              (fmul exact_platform (fdiv exact_platform (Fin (1 / 2)) (Fin 6))
                 (fadd exact_platform
                    (fadd exact_platform
                       (fadd exact_platform (k1 ! 3) (fmul exact_platform (Fin 2) (k2 ! 3)))
                       (fmul exact_platform (Fin 2) (k3 ! 3)))
                    (k4 ! 3)))"
    by simp
  have n0: "[at_rest, at_rest, at_rest] ! 0 = at_rest" by simp
  from d c3 have "\<exists>k1 k2 k3 k4.
      derivatives exact_platform unit_pendulum at_rest = Inr k1 \<and>
      derivatives exact_platform unit_pendulum
        (map (\<lambda>j. fadd exact_platform (at_rest ! j)
                    (fmul exact_platform (fdiv exact_platform (Fin (1 / 2)) (Fin 2)) (k1 ! j)))
           [0..<4]) = Inr k2 \<and>
      derivatives exact_platform unit_pendulum
        (map (\<lambda>j. fadd exact_platform (at_rest ! j)
                    (fmul exact_platform (fdiv exact_platform (Fin (1 / 2)) (Fin 2)) (k2 ! j)))
           [0..<4]) = Inr k3 \<and>
      derivatives exact_platform unit_pendulum
        (map (\<lambda>j. fadd exact_platform (at_rest ! j) (fmul exact_platform (Fin (1 / 2)) (k3 ! j)))
           [0..<4]) = Inr k4 \<and>
      [at_rest, at_rest, at_rest] ! Suc 0 ! 3 =
        fadd exact_platform (at_rest ! 3)
          (fmul exact_platform (fdiv exact_platform (Fin (1 / 2)) (Fin 6))
             (fadd exact_platform
                (fadd exact_platform
                   (fadd exact_platform (k1 ! 3) (fmul exact_platform (Fin 2) (k2 ! 3)))
                   (fmul exact_platform (Fin 2) (k3 ! 3)))
                (k4 ! 3)))"
    unfolding n0 by blast
  with run first show ?thesis by blast
qed

section \<open>The derivative\<close>

lemma eps_pos: "0 < eps"
  by (simp add: eps_def)

lemma not_below_threshold:
  fixes x :: npfloat
  assumes "Fin eps \<le> \<bar>x\<bar>"
  shows "\<not> \<bar>x\<bar> < Fin eps"
  using assms by (cases x) simp_all

lemma above_threshold:
  fixes x :: npfloat
  assumes "\<not> \<bar>x\<bar> < Fin eps"
  shows "(x = NaN \<or> Fin eps \<le> \<bar>x\<bar>) \<and> x \<noteq> Fin 0"
  using assms eps_pos by (cases x) auto

lemma fl_exact:
  "fl_denom1 exact_platform p (Fin a) (Fin b) = Fin (spec_denom1 p a b)"
  "fl_denom2 exact_platform p (Fin a) (Fin b) = Fin (spec_denom2 p a b)"
  "fl_num1 exact_platform p (Fin a) (Fin b) (Fin c) (Fin d) = Fin (spec_num1 p a b c d)"
  "fl_num2 exact_platform p (Fin a) (Fin b) (Fin c) (Fin d) = Fin (spec_num2 p a b c d)"
  by (simp_all add: fl_denom1_def fl_denom2_def fl_num1_def fl_num2_def
      spec_denom1_def spec_denom2_def spec_num1_def spec_num2_def
      fsub_def exact_platform_simps power2_eq_square)

lemma derivatives_exact_guard:
  assumes "\<bar>spec_denom1 p a b\<bar> < eps \<or> \<bar>spec_denom2 p a b\<bar> < eps"
  shows "derivatives exact_platform p [Fin a, Fin b, Fin c, Fin d] = Inr [Fin c, Fin d, Fin 0, Fin 0]"
  using assms by (simp add: derivatives_unfold fl_exact del: derivatives.simps)

lemma derivatives_exact_regular:
  assumes "\<not> (\<bar>spec_denom1 p a b\<bar> < eps \<or> \<bar>spec_denom2 p a b\<bar> < eps)"
  shows "derivatives exact_platform p [Fin a, Fin b, Fin c, Fin d] =
           Inr [Fin c, Fin d,
                Fin (spec_num1 p a b c d / spec_denom1 p a b),
                Fin (spec_num2 p a b c d / spec_denom2 p a b)]"
proof -
  from assms eps_pos have "spec_denom1 p a b \<noteq> 0" "spec_denom2 p a b \<noteq> 0" by auto
  with assms show ?thesis
    by (simp add: derivatives_unfold fl_exact exact_platform_simps del: derivatives.simps)
qed

lemma derivatives_components:
  "\<exists>a1 a2. derivatives P p [t1, t2, w1, w2] = Inr [w1, w2, a1, a2]"
  by (simp add: derivatives_unfold del: derivatives.simps)

text \<open>
  C2. For a state \<open>(theta1, theta2, omega1, omega2)\<close> in which both denominators
  \<open>denom1 = L1 (m1 + m2 sin(theta1 - theta2)^2)\<close> and
  \<open>denom2 = L2 (m1 + m2 sin(theta1 - theta2)^2)\<close> are at least \<open>1e-8\<close> in magnitude,
  \<open>derivatives\<close> returns \<open>(omega1, omega2, num1 / denom1, num2 / denom2)\<close> with the
  numerators of the specification: on every platform, with the formulas evaluated in
  its floating-point arithmetic, and where no operation rounds, with the formulas over
  the reals. For every state of four elements the first two outputs are the third and
  fourth inputs, unchanged.
\<close>

theorem derivatives_closed_form:
  fixes theta1 theta2 omega1 omega2 :: real and t1 t2 w1 w2 :: npfloat
  assumes "eps \<le> \<bar>spec_denom1 p theta1 theta2\<bar>" and "eps \<le> \<bar>spec_denom2 p theta1 theta2\<bar>"
  shows "derivatives exact_platform p [Fin theta1, Fin theta2, Fin omega1, Fin omega2] =
           Inr [Fin omega1, Fin omega2,
                Fin (spec_num1 p theta1 theta2 omega1 omega2 / spec_denom1 p theta1 theta2),
                Fin (spec_num2 p theta1 theta2 omega1 omega2 / spec_denom2 p theta1 theta2)] \<and>
         (\<exists>a1 a2. derivatives P p [t1, t2, w1, w2] = Inr [w1, w2, a1, a2]) \<and>
         (Fin eps \<le> \<bar>fl_denom1 P p t1 t2\<bar> \<and> Fin eps \<le> \<bar>fl_denom2 P p t1 t2\<bar> \<longrightarrow>
            derivatives P p [t1, t2, w1, w2] =
              Inr [w1, w2,
                   fdiv P (fl_num1 P p t1 t2 w1 w2) (fl_denom1 P p t1 t2),
                   fdiv P (fl_num2 P p t1 t2 w1 w2) (fl_denom2 P p t1 t2)])"
proof -
  from assms have "\<not> (\<bar>spec_denom1 p theta1 theta2\<bar> < eps \<or> \<bar>spec_denom2 p theta1 theta2\<bar> < eps)"
    by simp
  then have closed: "derivatives exact_platform p [Fin theta1, Fin theta2, Fin omega1, Fin omega2] =
           Inr [Fin omega1, Fin omega2,
                Fin (spec_num1 p theta1 theta2 omega1 omega2 / spec_denom1 p theta1 theta2),
                Fin (spec_num2 p theta1 theta2 omega1 omega2 / spec_denom2 p theta1 theta2)]"
    by (rule derivatives_exact_regular)
  have float: "derivatives P p [t1, t2, w1, w2] =
              Inr [w1, w2,
                   fdiv P (fl_num1 P p t1 t2 w1 w2) (fl_denom1 P p t1 t2),
                   fdiv P (fl_num2 P p t1 t2 w1 w2) (fl_denom2 P p t1 t2)]"
    if "Fin eps \<le> \<bar>fl_denom1 P p t1 t2\<bar>" and "Fin eps \<le> \<bar>fl_denom2 P p t1 t2\<bar>"
    using not_below_threshold [OF that(1)] not_below_threshold [OF that(2)]
    by (simp add: derivatives_unfold del: derivatives.simps)
  from closed derivatives_components [of P p t1 t2 w1 w2] float show ?thesis by blast
qed

lemma example_denoms:
  "spec_denom1 example_pendulum (pi / 2) (pi / 2) = 2"
  "spec_denom2 example_pendulum (pi / 2) (pi / 2) = 2"
  by (simp_all add: spec_denom1_def spec_denom2_def example_pendulum_def)

lemma example_nums:
  "spec_num1 example_pendulum (pi / 2) (pi / 2) 3 0 = - 9.81"
  "spec_num2 example_pendulum (pi / 2) (pi / 2) 3 0 = 0"
  by (simp_all add: spec_num1_def spec_num2_def example_pendulum_def)

theorem derivatives_closed_form_witness:
  "eps \<le> \<bar>spec_denom1 example_pendulum (pi / 2) (pi / 2)\<bar> \<and>
   eps \<le> \<bar>spec_denom2 example_pendulum (pi / 2) (pi / 2)\<bar> \<and>
   Fin eps \<le> \<bar>fl_denom1 exact_platform example_pendulum (Fin (pi / 2)) (Fin (pi / 2))\<bar> \<and>
   Fin eps \<le> \<bar>fl_denom2 exact_platform example_pendulum (Fin (pi / 2)) (Fin (pi / 2))\<bar> \<and>
   derivatives exact_platform example_pendulum [Fin (pi / 2), Fin (pi / 2), Fin 3, Fin 0] =
     Inr [Fin 3, Fin 0, Fin (- 9.81 / 2), Fin 0] \<and>
   fdiv exact_platform
     (fl_num1 exact_platform example_pendulum (Fin (pi / 2)) (Fin (pi / 2)) (Fin 3) (Fin 0))
     (fl_denom1 exact_platform example_pendulum (Fin (pi / 2)) (Fin (pi / 2))) = Fin (- 9.81 / 2)"
proof -
  have h1: "eps \<le> \<bar>spec_denom1 example_pendulum (pi / 2) (pi / 2)\<bar>"
    by (simp add: example_denoms eps_def)
  have h2: "eps \<le> \<bar>spec_denom2 example_pendulum (pi / 2) (pi / 2)\<bar>"
    by (simp add: example_denoms eps_def)
  have f1: "Fin eps \<le> \<bar>fl_denom1 exact_platform example_pendulum (Fin (pi / 2)) (Fin (pi / 2))\<bar>"
    by (simp add: fl_exact example_denoms eps_def)
  have f2: "Fin eps \<le> \<bar>fl_denom2 exact_platform example_pendulum (Fin (pi / 2)) (Fin (pi / 2))\<bar>"
    by (simp add: fl_exact example_denoms eps_def)
  from derivatives_closed_form [OF h1 h2,
      of 3 0 exact_platform "Fin (pi / 2)" "Fin (pi / 2)" "Fin 3" "Fin 0"] f1 f2
  have "derivatives exact_platform example_pendulum [Fin (pi / 2), Fin (pi / 2), Fin 3, Fin 0] =
          Inr [Fin 3, Fin 0,
               Fin (spec_num1 example_pendulum (pi / 2) (pi / 2) 3 0 /
                    spec_denom1 example_pendulum (pi / 2) (pi / 2)),
               Fin (spec_num2 example_pendulum (pi / 2) (pi / 2) 3 0 /
                    spec_denom2 example_pendulum (pi / 2) (pi / 2))]"
    and "derivatives exact_platform example_pendulum [Fin (pi / 2), Fin (pi / 2), Fin 3, Fin 0] =
          Inr [Fin 3, Fin 0,
               fdiv exact_platform
                 (fl_num1 exact_platform example_pendulum (Fin (pi / 2)) (Fin (pi / 2)) (Fin 3) (Fin 0))
                 (fl_denom1 exact_platform example_pendulum (Fin (pi / 2)) (Fin (pi / 2))),
               fdiv exact_platform
                 (fl_num2 exact_platform example_pendulum (Fin (pi / 2)) (Fin (pi / 2)) (Fin 3) (Fin 0))
                 (fl_denom2 exact_platform example_pendulum (Fin (pi / 2)) (Fin (pi / 2)))]"
    by blast+
  then have
    "derivatives exact_platform example_pendulum [Fin (pi / 2), Fin (pi / 2), Fin 3, Fin 0] =
       Inr [Fin 3, Fin 0, Fin (- 9.81 / 2), Fin 0]"
    "fdiv exact_platform
       (fl_num1 exact_platform example_pendulum (Fin (pi / 2)) (Fin (pi / 2)) (Fin 3) (Fin 0))
       (fl_denom1 exact_platform example_pendulum (Fin (pi / 2)) (Fin (pi / 2))) = Fin (- 9.81 / 2)"
    by (simp_all add: example_denoms example_nums fl_exact exact_platform_simps)
  with h1 h2 f1 f2 show ?thesis by blast
qed

lemma nan_absorbs:
  "fadd P x NaN = NaN" "fadd P NaN x = NaN"
  "fsub P x NaN = NaN" "fsub P NaN x = NaN"
  "fmul P x NaN = NaN" "fmul P NaN x = NaN"
  "fdiv P x NaN = NaN" "fdiv P NaN x = NaN"
  by (cases x; simp add: fsub_def)+

lemma overflow_platform_simps:
  "rnd overflow_platform x = overflow_rnd x"
  "libm_sin overflow_platform = sin"
  "libm_cos overflow_platform = cos"
  "libm_pow overflow_platform a n = overflow_rnd (a ^ n)"
  by (simp_all add: overflow_platform_def exact_platform_def)

lemma difference_overflows:
  "fsub overflow_platform (Fin huge) (Fin (- huge)) = PInf"
  by (simp add: fsub_def overflow_platform_simps overflow_rnd_def huge_def)

lemma denominators_nan:
  "fl_denom1 overflow_platform unit_pendulum (Fin huge) (Fin (- huge)) = NaN"
  "fl_denom2 overflow_platform unit_pendulum (Fin huge) (Fin (- huge)) = NaN"
  by (simp_all only: fl_denom1_def fl_denom2_def difference_overflows np_sin.simps nan_absorbs)

lemma numerators_nan:
  "fl_num1 overflow_platform unit_pendulum (Fin huge) (Fin (- huge)) w1 w2 = NaN"
  "fl_num2 overflow_platform unit_pendulum (Fin huge) (Fin (- huge)) w1 w2 = NaN"
  by (simp_all only: fl_num1_def fl_num2_def difference_overflows np_sin.simps np_cos.simps
      nan_absorbs)

lemma derivatives_overflow:
  "derivatives overflow_platform unit_pendulum [Fin huge, Fin (- huge), Fin 0, Fin 0] =
     Inr [Fin 0, Fin 0, NaN, NaN]"
  by (simp add: derivatives_unfold denominators_nan numerators_nan nan_absorbs
      del: derivatives.simps)

text \<open>
  C5, as stated, fails in its last clause. The difference of the finite angles
  \<open>2^1023\<close> and \<open>-2^1023\<close> overflows, its sine is not a number, and so are both
  denominators: neither is below the threshold, so the divisions are performed, and
  neither is at least \<open>1e-8\<close> in magnitude. Nothing is raised; the accelerations
  returned are not numbers.
\<close>

theorem denominators_not_above_threshold_counterexample:
  "derivatives overflow_platform unit_pendulum [Fin huge, Fin (- huge), Fin 0, Fin 0] =
     Inr [Fin 0, Fin 0, NaN, NaN] \<and>
   fl_denom1 overflow_platform unit_pendulum (Fin huge) (Fin (- huge)) = NaN \<and>
   \<not> \<bar>fl_denom1 overflow_platform unit_pendulum (Fin huge) (Fin (- huge))\<bar> < Fin eps \<and>
   \<not> Fin eps \<le> \<bar>fl_denom1 overflow_platform unit_pendulum (Fin huge) (Fin (- huge))\<bar>"
  by (simp add: derivatives_overflow denominators_nan del: derivatives.simps)

text \<open>
  C5, amended. \<open>derivatives\<close> returns for every state of four elements and never
  raises. When one of the two denominators is below \<open>1e-8\<close> in magnitude it returns
  \<open>(omega1, omega2, 0, 0)\<close> without dividing. Otherwise it returns the two quotients,
  and each denominator is at least \<open>1e-8\<close> in magnitude or is not a number, hence is not
  zero: no division by zero takes place. (The quotients themselves need not be finite:
  they are not numbers when a denominator is not, or when a numerator is not, as for
  the finite state \<open>(0, 0, 2^1023, 0)\<close>, where the square of \<open>omega1\<close> overflows.)
\<close>

theorem derivatives_defined:
  "(\<exists>a1 a2. derivatives P p [t1, t2, w1, w2] = Inr [w1, w2, a1, a2]) \<and>
   (\<bar>fl_denom1 P p t1 t2\<bar> < Fin eps \<or> \<bar>fl_denom2 P p t1 t2\<bar> < Fin eps \<longrightarrow>
      derivatives P p [t1, t2, w1, w2] = Inr [w1, w2, Fin 0, Fin 0]) \<and>
   (\<not> (\<bar>fl_denom1 P p t1 t2\<bar> < Fin eps \<or> \<bar>fl_denom2 P p t1 t2\<bar> < Fin eps) \<longrightarrow>
      (fl_denom1 P p t1 t2 = NaN \<or> Fin eps \<le> \<bar>fl_denom1 P p t1 t2\<bar>) \<and>
      (fl_denom2 P p t1 t2 = NaN \<or> Fin eps \<le> \<bar>fl_denom2 P p t1 t2\<bar>) \<and>
      fl_denom1 P p t1 t2 \<noteq> Fin 0 \<and> fl_denom2 P p t1 t2 \<noteq> Fin 0 \<and>
      derivatives P p [t1, t2, w1, w2] =
        Inr [w1, w2,
             fdiv P (fl_num1 P p t1 t2 w1 w2) (fl_denom1 P p t1 t2),
             fdiv P (fl_num2 P p t1 t2 w1 w2) (fl_denom2 P p t1 t2)])"
proof (cases "\<bar>fl_denom1 P p t1 t2\<bar> < Fin eps \<or> \<bar>fl_denom2 P p t1 t2\<bar> < Fin eps")
  case True
  then show ?thesis by (simp add: derivatives_unfold del: derivatives.simps)
next
  case False
  then have "\<not> \<bar>fl_denom1 P p t1 t2\<bar> < Fin eps" "\<not> \<bar>fl_denom2 P p t1 t2\<bar> < Fin eps"
    by simp_all
  from above_threshold [OF this(1)] above_threshold [OF this(2)] False show ?thesis
    by (simp add: derivatives_unfold del: derivatives.simps)
qed

lemma tiny_denoms:
  "spec_denom1 tiny_pendulum 0 0 = 1 / 10 ^ 9"
  "spec_denom2 tiny_pendulum 0 0 = 1"
  by (simp_all add: spec_denom1_def spec_denom2_def tiny_pendulum_def)

lemma square_overflows:
  "fl_num1 overflow_platform unit_pendulum (Fin 0) (Fin 0) (Fin huge) (Fin 0) = NaN"
  by (simp add: fl_num1_def fsub_def overflow_platform_simps overflow_rnd_def unit_pendulum_def
      signed_inf_def huge_def)

lemma unit_denoms:
  "fl_denom1 overflow_platform unit_pendulum (Fin 0) (Fin 0) = Fin 1"
  "fl_denom2 overflow_platform unit_pendulum (Fin 0) (Fin 0) = Fin 1"
  by (simp_all add: fl_denom1_def fl_denom2_def fsub_def overflow_platform_simps overflow_rnd_def
      unit_pendulum_def)

theorem derivatives_defined_witness:
  "(\<bar>fl_denom1 exact_platform tiny_pendulum (Fin 0) (Fin 0)\<bar> < Fin eps \<or>
    \<bar>fl_denom2 exact_platform tiny_pendulum (Fin 0) (Fin 0)\<bar> < Fin eps) \<and>
   derivatives exact_platform tiny_pendulum [Fin 0, Fin 0, Fin 1, Fin 2] =
     Inr [Fin 1, Fin 2, Fin 0, Fin 0] \<and>
   \<not> (\<bar>fl_denom1 overflow_platform unit_pendulum (Fin 0) (Fin 0)\<bar> < Fin eps \<or>
      \<bar>fl_denom2 overflow_platform unit_pendulum (Fin 0) (Fin 0)\<bar> < Fin eps) \<and>
   Fin eps \<le> \<bar>fl_denom1 overflow_platform unit_pendulum (Fin 0) (Fin 0)\<bar> \<and>
   (\<exists>a2. derivatives overflow_platform unit_pendulum [Fin 0, Fin 0, Fin huge, Fin 0] =
      Inr [Fin huge, Fin 0, NaN, a2])"
proof -
  have g: "\<bar>fl_denom1 exact_platform tiny_pendulum (Fin 0) (Fin 0)\<bar> < Fin eps \<or>
           \<bar>fl_denom2 exact_platform tiny_pendulum (Fin 0) (Fin 0)\<bar> < Fin eps"
    by (simp add: fl_exact tiny_denoms eps_def)
  have r: "\<not> (\<bar>fl_denom1 overflow_platform unit_pendulum (Fin 0) (Fin 0)\<bar> < Fin eps \<or>
              \<bar>fl_denom2 overflow_platform unit_pendulum (Fin 0) (Fin 0)\<bar> < Fin eps)"
    by (simp add: unit_denoms eps_def)
  from derivatives_defined [of exact_platform tiny_pendulum "Fin 0" "Fin 0" "Fin 1" "Fin 2"] g
  have a: "derivatives exact_platform tiny_pendulum [Fin 0, Fin 0, Fin 1, Fin 2] =
             Inr [Fin 1, Fin 2, Fin 0, Fin 0]"
    by blast
  from derivatives_defined
         [of overflow_platform unit_pendulum "Fin 0" "Fin 0" "Fin huge" "Fin 0"] r
  have b: "derivatives overflow_platform unit_pendulum [Fin 0, Fin 0, Fin huge, Fin 0] =
             Inr [Fin huge, Fin 0,
                  fdiv overflow_platform
                    (fl_num1 overflow_platform unit_pendulum (Fin 0) (Fin 0) (Fin huge) (Fin 0))
                    (fl_denom1 overflow_platform unit_pendulum (Fin 0) (Fin 0)),
                  fdiv overflow_platform
                    (fl_num2 overflow_platform unit_pendulum (Fin 0) (Fin 0) (Fin huge) (Fin 0))
                    (fl_denom2 overflow_platform unit_pendulum (Fin 0) (Fin 0))]"
    by blast
  have c: "Fin eps \<le> \<bar>fl_denom1 overflow_platform unit_pendulum (Fin 0) (Fin 0)\<bar>"
    by (simp add: unit_denoms eps_def)
  from b have d: "\<exists>a2. derivatives overflow_platform unit_pendulum
                          [Fin 0, Fin 0, Fin huge, Fin 0] =
                        Inr [Fin huge, Fin 0, NaN, a2]"
    by (simp only: square_overflows nan_absorbs) blast
  from g a r c d show ?thesis by blast
qed

section \<open>Construction of the model\<close>

text \<open>
  C9. Constructing a model fails with a \<open>ValueError\<close> whenever one of \<open>L1\<close>, \<open>L2\<close>,
  \<open>m1\<close>, \<open>m2\<close> is not positive; when all four are positive it succeeds, and the
  instance holds exactly the values supplied (and for \<open>g\<close> the value supplied or the
  default \<open>9.81\<close>).
\<close>

theorem init_validates:
  "(l1 \<le> 0 \<or> l2 \<le> 0 \<or> mass1 \<le> 0 \<or> mass2 \<le> 0 \<longrightarrow>
      (\<exists>ve. init l1 l2 mass1 mass2 g_arg = Inl (ValueError ve))) \<and>
   (0 < l1 \<and> 0 < l2 \<and> 0 < mass1 \<and> 0 < mass2 \<longrightarrow>
      init l1 l2 mass1 mass2 g_arg =
        Inr \<lparr>L1 = l1, L2 = l2, m1 = mass1, m2 = mass2,
             g = (case g_arg of None \<Rightarrow> 9.81 | Some gv \<Rightarrow> gv)\<rparr>)"
  by (auto simp: init_def)

theorem init_validates_witness:
  "((-1 :: real) \<le> 0 \<or> (1 :: real) \<le> 0 \<or> (1 :: real) \<le> 0 \<or> (1 :: real) \<le> 0) \<and>
   (\<exists>ve. init (-1) 1 1 1 None = Inl (ValueError ve)) \<and>
   ((0 :: real) < 2 \<and> (0 :: real) < 2 \<and> (0 :: real) < 1 \<and> (0 :: real) < 3) \<and>
   init 2 2 1 3 None = Inr example_pendulum"
proof -
  have a: "(-1 :: real) \<le> 0 \<or> (1 :: real) \<le> 0 \<or> (1 :: real) \<le> 0 \<or> (1 :: real) \<le> 0" by simp
  have b: "(0 :: real) < 2 \<and> (0 :: real) < 2 \<and> (0 :: real) < 1 \<and> (0 :: real) < 3" by simp
  from init_validates [of "-1" 1 1 1 None] a
  have c: "\<exists>ve. init (-1) 1 1 1 None = Inl (ValueError ve)" by blast
  from init_validates [of 2 2 1 3 None] b
  have d: "init 2 2 1 3 None = Inr example_pendulum" by (simp add: example_pendulum_def)
  from a b c d show ?thesis by blast
qed

text \<open>
  C10. The gravitational acceleration is not validated: with positive lengths and masses
  the construction succeeds for every real \<open>g\<close>, zero and negative values included, the
  instance stores that value, and the derivative of a state outside the guard is
  computed from it as it is: on every platform the accelerations are the quotients of
  the floating-point closed forms of the instance, and where no operation rounds they
  are the quotients of the closed forms over the reals with that \<open>g\<close>.
\<close>

theorem init_accepts_any_g:
  fixes theta1 theta2 omega1 omega2 :: real
  assumes "0 < l1" and "0 < l2" and "0 < mass1" and "0 < mass2"
  shows "\<exists>p. init l1 l2 mass1 mass2 (Some gv) = Inr p \<and>
             p = \<lparr>L1 = l1, L2 = l2, m1 = mass1, m2 = mass2, g = gv\<rparr> \<and> g p = gv \<and>
             (\<not> (\<bar>spec_denom1 p theta1 theta2\<bar> < eps \<or> \<bar>spec_denom2 p theta1 theta2\<bar> < eps) \<longrightarrow>
                derivatives exact_platform p [Fin theta1, Fin theta2, Fin omega1, Fin omega2] =
                  Inr [Fin omega1, Fin omega2,
                       Fin ((mass2 * gv * sin theta2 * cos (theta1 - theta2)
                             - mass2 * sin (theta1 - theta2)
                                 * (l1 * omega1\<^sup>2 * cos (theta1 - theta2) + l2 * omega2\<^sup>2)
                             - (mass1 + mass2) * gv * sin theta1)
                            / spec_denom1 p theta1 theta2),
                       Fin (((mass1 + mass2)
                               * (l1 * omega1\<^sup>2 * sin (theta1 - theta2) - gv * sin theta2
                                  + gv * sin theta1 * cos (theta1 - theta2))
                             + mass2 * l2 * omega2\<^sup>2 * sin (theta1 - theta2) * cos (theta1 - theta2))
                            / spec_denom2 p theta1 theta2)]) \<and>
             (\<not> (\<bar>fl_denom1 P p t1 t2\<bar> < Fin eps \<or> \<bar>fl_denom2 P p t1 t2\<bar> < Fin eps) \<longrightarrow>
                derivatives P p [t1, t2, w1, w2] =
                  Inr [w1, w2,
                       fdiv P (fl_num1 P p t1 t2 w1 w2) (fl_denom1 P p t1 t2),
                       fdiv P (fl_num2 P p t1 t2 w1 w2) (fl_denom2 P p t1 t2)])"
proof -
  let ?p = "\<lparr>L1 = l1, L2 = l2, m1 = mass1, m2 = mass2, g = gv\<rparr>"
  have i: "init l1 l2 mass1 mass2 (Some gv) = Inr ?p"
    using assms by (simp add: init_def)
  have d: "derivatives exact_platform ?p [Fin theta1, Fin theta2, Fin omega1, Fin omega2] =
             Inr [Fin omega1, Fin omega2,
                  Fin (spec_num1 ?p theta1 theta2 omega1 omega2 / spec_denom1 ?p theta1 theta2),
                  Fin (spec_num2 ?p theta1 theta2 omega1 omega2 / spec_denom2 ?p theta1 theta2)]"
    if "\<not> (\<bar>spec_denom1 ?p theta1 theta2\<bar> < eps \<or> \<bar>spec_denom2 ?p theta1 theta2\<bar> < eps)"
    using that by (rule derivatives_exact_regular)
  have f: "derivatives P ?p [t1, t2, w1, w2] =
             Inr [w1, w2,
                  fdiv P (fl_num1 P ?p t1 t2 w1 w2) (fl_denom1 P ?p t1 t2),
                  fdiv P (fl_num2 P ?p t1 t2 w1 w2) (fl_denom2 P ?p t1 t2)]"
    if "\<not> (\<bar>fl_denom1 P ?p t1 t2\<bar> < Fin eps \<or> \<bar>fl_denom2 P ?p t1 t2\<bar> < Fin eps)"
    using that by (simp add: derivatives_unfold del: derivatives.simps)
  from i d f show ?thesis by (simp add: spec_num1_def spec_num2_def del: derivatives.simps)
qed

theorem init_accepts_any_g_witness:
  "(0 :: real) < 2 \<and> (0 :: real) < 2 \<and> (0 :: real) < 1 \<and> (0 :: real) < 3 \<and>
   init 2 2 1 3 (Some (- 9.81)) = Inr \<lparr>L1 = 2, L2 = 2, m1 = 1, m2 = 3, g = - 9.81\<rparr> \<and>
   derivatives exact_platform \<lparr>L1 = 2, L2 = 2, m1 = 1, m2 = 3, g = - 9.81\<rparr>
       [Fin (pi / 2), Fin (pi / 2), Fin 3, Fin 0] =
     Inr [Fin 3, Fin 0, Fin (9.81 / 2), Fin 0] \<and>
   init 2 2 1 3 (Some 0) = Inr \<lparr>L1 = 2, L2 = 2, m1 = 1, m2 = 3, g = 0\<rparr>"
proof -
  have h: "(0 :: real) < 2" "(0 :: real) < 2" "(0 :: real) < 1" "(0 :: real) < 3" by simp_all
  have dn: "spec_denom1 \<lparr>L1 = 2, L2 = 2, m1 = 1, m2 = 3, g = gv\<rparr> (pi / 2) (pi / 2) = 2"
           "spec_denom2 \<lparr>L1 = 2, L2 = 2, m1 = 1, m2 = 3, g = gv\<rparr> (pi / 2) (pi / 2) = 2" for gv
    by (simp_all add: spec_denom1_def spec_denom2_def)
  from init_accepts_any_g [OF h, of "- 9.81" "pi / 2" "pi / 2" 3 0]
  have a: "init 2 2 1 3 (Some (- 9.81)) = Inr \<lparr>L1 = 2, L2 = 2, m1 = 1, m2 = 3, g = - 9.81\<rparr> \<and>
           derivatives exact_platform \<lparr>L1 = 2, L2 = 2, m1 = 1, m2 = 3, g = - 9.81\<rparr>
               [Fin (pi / 2), Fin (pi / 2), Fin 3, Fin 0] =
             Inr [Fin 3, Fin 0, Fin (9.81 / 2), Fin 0]"
    by (simp add: dn eps_def del: derivatives.simps)
  from init_accepts_any_g [OF h, of 0 0 0 0 0]
  have b: "init 2 2 1 3 (Some 0) = Inr \<lparr>L1 = 2, L2 = 2, m1 = 1, m2 = 3, g = 0\<rparr>"
    by blast
  from a b h show ?thesis by simp
qed

section \<open>The time grid\<close>

lemma integrate_success_finite:
  assumes "integrate P self y0 t_max dt method = Inr (t, Y)"
  shows "\<exists>T d. t_max = Fin T \<and> dt = Fin d \<and> 0 < T \<and> 0 < d"
proof -
  from integrate_Inr_cases [OF assms] have
    checks: "\<not> dt \<le> Fin 0" "\<not> t_max \<le> Fin 0" and
    grid: "np_arange P (Fin 0) (fadd P t_max (fdiv P dt (Fin 2))) dt = Inr t"
    by simp_all
  from np_arange_Inr [OF grid] obtain q where
    q: "fdiv P (fsub P (fadd P t_max (fdiv P dt (Fin 2))) (Fin 0)) dt = Fin q"
    by blast
  show ?thesis
  proof (cases dt)
    case (Fin d)
    show ?thesis
    proof (cases t_max)
      case T: (Fin T)
      with Fin checks show ?thesis by simp
    next
      case PInf
      with Fin q checks show ?thesis
        by (cases "rnd P (d / 2)") (simp_all add: fsub_def split: if_splits)
    next
      case NInf
      with checks show ?thesis by simp
    next
      case NaN
      with q show ?thesis by (simp add: nan_absorbs)
    qed
  next
    case PInf
    with q checks show ?thesis by (cases t_max) (simp_all add: fsub_def)
  next
    case NInf
    with checks show ?thesis by simp
  next
    case NaN
    with q show ?thesis by (simp add: nan_absorbs)
  qed
qed

lemma integrate_grid:
  assumes "integrate P self y0 t_max dt method = Inr (t, Y)"
  shows "\<exists>q. grid_quotient P t_max dt = Fin q \<and> t = arange_fill P (Fin 0) dt (nat \<lceil>q\<rceil>) \<and>
             0 < nat \<lceil>q\<rceil> \<and> length Y = nat \<lceil>q\<rceil> \<and> Y ! 0 = y0 \<and>
             (\<forall>j<length Y. length (Y ! j) = 4)"
proof -
  from integrate_Inr_cases [OF assms] have
    valid: "\<not> dt \<le> Fin 0" "\<not> t_max \<le> Fin 0" "length y0 = 4"
      "np_arange P (Fin 0) (fadd P t_max (fdiv P dt (Fin 2))) dt = Inr t" "t \<noteq> []"
      "np_zeros P (length t) 4 = Inr (replicate (length t) (replicate 4 (Fin 0)))"
      "unicode_lower P method = py ''rk4''"
    by simp_all
  from np_arange_Inr [OF valid(4)] obtain q where
    q: "grid_quotient P t_max dt = Fin q" "t = arange_fill P (Fin 0) dt (nat \<lceil>q\<rceil>)"
    by (auto simp: grid_quotient_def)
  have len: "length t = nat \<lceil>q\<rceil>" by (simp add: q(2) length_arange_fill)
  from valid(5) have "0 < length t" by simp
  then have pos: "0 < nat \<lceil>q\<rceil>" by (simp only: len)
  from integrate_rk4 [OF valid, of self] assms have
    "length Y = length t" "Y ! 0 = y0" "\<forall>j<length Y. length (Y ! j) = 4"
    by auto
  with q pos len show ?thesis by simp
qed

lemma last_index_bounds:
  assumes "0 < nat \<lceil>q :: real\<rceil>"
  shows "real (nat \<lceil>q\<rceil> - 1) < q" and "q \<le> real (nat \<lceil>q\<rceil>)"
proof -
  from assms have "nat \<lceil>q\<rceil> - 1 < nat \<lceil>q\<rceil>" by simp
  then show "real (nat \<lceil>q\<rceil> - 1) < q" by (simp only: index_below_ceiling)
  have "\<not> real (nat \<lceil>q\<rceil>) < q"
    using index_below_ceiling [of "nat \<lceil>q\<rceil>" q] by simp
  then show "q \<le> real (nat \<lceil>q\<rceil>)" by (simp only: not_less)
qed

lemma samples_rounded:
  assumes "float_rounding P" and "is_float P d" and "k < n"
  shows "arange_fill P (Fin 0) (Fin d) n ! k = fmul P (Fin (real k)) (Fin d)"
proof -
  from assms(1) have zero: "rnd P 0 = Fin 0" and
    idem: "\<And>x y. rnd P x = Fin y \<Longrightarrow> rnd P y = Fin y"
    by (auto simp: float_rounding_def is_float_def)
  from assms(2) have d: "rnd P d = Fin d" by (simp add: is_float_def)
  have again: "fadd P (Fin 0) (rnd P x) = rnd P x" for x
    using idem [of x] by (cases "rnd P x") simp_all
  consider "k = 0" | "k = 1" | "2 \<le> k" by linarith
  then show ?thesis
  proof cases
    case 1
    with assms(3) zero show ?thesis by (simp add: nth_arange_fill)
  next
    case 2
    with assms(3) d show ?thesis by (simp add: nth_arange_fill)
  next
    case 3
    then have "arange_fill P (Fin 0) (Fin d) n ! k =
                 fadd P (Fin 0) (fmul P (Fin (real k)) (fsub P (fadd P (Fin 0) (Fin d)) (Fin 0)))"
      using assms(3) by (simp add: nth_arange_fill)
    also have "fsub P (fadd P (Fin 0) (Fin d)) (Fin 0) = Fin d"
      by (simp add: fsub_def d)
    also have "fadd P (Fin 0) (fmul P (Fin (real k)) (Fin d)) = fmul P (Fin (real k)) (Fin d)"
      using again [of "real k * d"] by simp
    finally show ?thesis .
  qed
qed

lemma quotient_exact:
  assumes "is_float P (d / 2)" and "is_float P (T + d / 2)" and "is_float P ((T + d / 2) / d)"
    and "d \<noteq> 0"
  shows "grid_quotient P (Fin T) (Fin d) = Fin ((T + d / 2) / d)"
  using assms by (simp add: grid_quotient_def fsub_def is_float_def)

lemma half_step_grid:
  assumes "is_float P (1 / 4)" and "is_float P (1 / 2)" and "is_float P 1"
    and "is_float P (5 / 4)" and "is_float P (5 / 2)"
  shows "grid_quotient P (Fin 1) (Fin (1 / 2)) = Fin (5 / 2)"
    and "arange_fill P (Fin 0) (Fin (1 / 2)) 3 = [Fin 0, Fin (1 / 2), Fin 1]"
  using assms
  by (simp_all add: grid_quotient_def arange_fill_def Let_def fsub_def is_float_def upt_0_3)

lemma half_step_call:
  assumes "is_float P (1 / 4)" and "is_float P (1 / 2)" and "is_float P 1"
    and "is_float P (5 / 4)" and "is_float P (5 / 2)"
    and "96 \<le> max_intp P" and "12 \<le> memory P"
    and "length y0 = 4" and "unicode_lower P m = py ''rk4''"
  shows "\<exists>Y. integrate P self y0 (Fin 1) (Fin (1 / 2)) m = Inr ([Fin 0, Fin (1 / 2), Fin 1], Y) \<and>
             length Y = 3"
proof -
  let ?t = "[Fin 0, Fin (1 / 2), Fin 1 :: npfloat]"
  note f = assms(1-5)
  have q: "fdiv P (fsub P (fadd P (Fin 1) (fdiv P (Fin (1 / 2)) (Fin 2))) (Fin 0)) (Fin (1 / 2)) =
             Fin (5 / 2)"
    using half_step_grid(1) [OF f] by (simp only: grid_quotient_def)
  have c: "\<lceil>5 / 2 :: real\<rceil> = 3" by simp
  have a3: "np_alloc P 3 = Inr ()" using assms(6,7) by (simp add: np_alloc_def)
  have a12: "np_alloc P 12 = Inr ()" using assms(6,7) by (simp add: np_alloc_def)
  have grid: "np_arange P (Fin 0) (fadd P (Fin 1) (fdiv P (Fin (1 / 2)) (Fin 2))) (Fin (1 / 2)) =
                Inr ?t"
    using assms(6) a3 half_step_grid(2) [OF f]
    by (simp add: np_arange_def q c bind_result_simps del: fdiv.simps fadd.simps)
  have zeros: "np_zeros P (length ?t) 4 = Inr (replicate 3 (replicate 4 (Fin 0)))"
    using a12 by (simp add: np_zeros_def bind_result_simps numeral_3_eq_3)
  have checks: "\<not> Fin (1 / 2) \<le> Fin 0" "\<not> Fin 1 \<le> Fin 0" by simp_all
  from integrate_rk4 [OF checks assms(8) grid _ zeros assms(9), of self] show ?thesis by auto
qed

lemma exact_platform_floats:
  "is_float exact_platform x" "float_rounding exact_platform"
  by (simp_all add: is_float_def float_rounding_def exact_platform_simps)

lemma integrate_at_rest_1:
  "integrate exact_platform unit_pendulum at_rest (Fin (1 / 2)) (Fin 1) (py ''rk4'') =
     Inr ([Fin 0], [at_rest])"
proof -
  have n: "nat \<lceil>((1 / 2 :: real) + 1 / 2) / 1\<rceil> = 1" by simp
  have "((1 / 2 :: real) + 1 / 2) / 1 \<le> 2 ^ 28" by simp
  from integrate_at_rest [OF _ _ this n lower_rk4] show ?thesis by simp
qed

lemma integrate_at_rest_2:
  "integrate exact_platform unit_pendulum at_rest (Fin 1) (Fin (3 / 4)) (py ''rk4'') =
     Inr ([Fin 0, Fin (3 / 4)], [at_rest, at_rest])"
proof -
  have "\<lceil>(11 :: real) / 6\<rceil> = 2" by linarith
  then have n: "nat \<lceil>((1 :: real) + 3 / 4 / 2) / (3 / 4)\<rceil> = 2" by simp
  have "((1 :: real) + 3 / 4 / 2) / (3 / 4) \<le> 2 ^ 28" by simp
  from integrate_at_rest [OF _ _ this n lower_rk4] show ?thesis
    by (simp add: upt_0_2 numeral_2_eq_2)
qed

lemma integrate_samples:
  assumes "integrate P self y0 t_max dt method = Inr (t, Y)"
  shows "t ! 0 = Fin 0"
    and "1 < length t \<Longrightarrow> t ! 1 = fadd P (Fin 0) dt"
    and "2 \<le> k \<Longrightarrow> k < length t \<Longrightarrow>
           t ! k = fadd P (Fin 0) (fmul P (Fin (real k)) (fsub P (fadd P (Fin 0) dt) (Fin 0)))"
    and "float_rounding P \<Longrightarrow> dt = Fin d \<Longrightarrow> is_float P d \<Longrightarrow> k < length t \<Longrightarrow>
           t ! k = fmul P (Fin (real k)) dt"
proof -
  from integrate_grid [OF assms] obtain q :: real where
    t: "t = arange_fill P (Fin 0) dt (nat \<lceil>q\<rceil>)" and pos: "0 < nat \<lceil>q\<rceil>"
    by blast
  have len: "length t = nat \<lceil>q\<rceil>" by (simp add: t length_arange_fill)
  show "t ! 0 = Fin 0" using pos by (simp add: t nth_arange_fill)
  show "t ! 1 = fadd P (Fin 0) dt" if "1 < length t"
    using that len by (simp add: t nth_arange_fill)
  show "t ! k = fadd P (Fin 0) (fmul P (Fin (real k)) (fsub P (fadd P (Fin 0) dt) (Fin 0)))"
    if "2 \<le> k" and "k < length t"
    using that len by (simp add: t nth_arange_fill)
  show "t ! k = fmul P (Fin (real k)) dt"
    if "float_rounding P" and "dt = Fin d" and "is_float P d" and "k < length t"
    using samples_rounded [OF that(1,3), of k "nat \<lceil>q\<rceil>"] that(2,4) len by (simp add: t)
qed

text \<open>
  C3, as stated, fails: the grid is half-open. With \<open>t_max = 0.5\<close> and \<open>dt = 1.0\<close> the
  next sample \<open>1.0\<close> equals \<open>t_max + dt / 2\<close> (every operation here is exact in
  float64), and it is not in the grid, which is \<open>[0.0]\<close>.
\<close>

theorem grid_closed_bound_counterexample:
  "integrate exact_platform unit_pendulum at_rest (Fin (1 / 2)) (Fin 1) (py ''rk4'') =
     Inr ([Fin 0], [at_rest]) \<and>
   fmul exact_platform (Fin 1) (Fin 1) \<le>
     fadd exact_platform (Fin (1 / 2)) (fdiv exact_platform (Fin 1) (Fin 2))"
  by (simp add: integrate_at_rest_1 exact_platform_simps)

text \<open>
  C3, amended. For every call that returns, the time grid starts at \<open>0\<close> and steps by
  \<open>dt\<close>: it holds the samples \<open>0\<close>, \<open>0 + dt\<close> and from index \<open>2\<close> on \<open>0 + k delta\<close> with
  \<open>delta = (0 + dt) - 0\<close>, which in float arithmetic is the product \<open>k dt\<close>, rounded. It
  holds exactly the samples whose index \<open>k\<close> is strictly below the float quotient
  \<open>(t_max + dt / 2) / dt\<close>; where that quotient is computed without rounding these are
  the indices with \<open>k dt < t_max + dt / 2\<close>, a sample equal to \<open>t_max + dt / 2\<close> being left
  out. In particular \<open>t_max = 1.0\<close> and \<open>dt = 0.5\<close> give \<open>t = [0.0, 0.5, 1.0]\<close> and
  \<open>N = 3\<close> (the numbers \<open>0.25\<close>, \<open>0.5\<close>, \<open>1\<close>, \<open>1.25\<close> and \<open>2.5\<close> are floats), and the call
  with these arguments, a state of four components and a method with the lower-case
  form \<open>rk4\<close> does return, given room for arrays of \<open>3\<close> and \<open>12\<close> floats.
\<close>

theorem grid_half_open:
  assumes "integrate P self y0 t_max dt method = Inr (t, Y)"
  shows "(\<exists>q. grid_quotient P t_max dt = Fin q \<and> length t = nat \<lceil>q\<rceil> \<and>
              (\<forall>k. k < length t \<longleftrightarrow> real k < q)) \<and>
         t ! 0 = Fin 0 \<and>
         (1 < length t \<longrightarrow> t ! 1 = fadd P (Fin 0) dt) \<and>
         (\<forall>k. 2 \<le> k \<and> k < length t \<longrightarrow>
            t ! k = fadd P (Fin 0) (fmul P (Fin (real k)) (fsub P (fadd P (Fin 0) dt) (Fin 0)))) \<and>
         (float_rounding P \<and> (\<exists>d. dt = Fin d \<and> is_float P d) \<longrightarrow>
            (\<forall>k<length t. t ! k = fmul P (Fin (real k)) dt)) \<and>
         (\<forall>T d. t_max = Fin T \<and> dt = Fin d \<and> is_float P (d / 2) \<and> is_float P (T + d / 2) \<and>
                 is_float P ((T + d / 2) / d) \<longrightarrow>
            (\<forall>k. k < length t \<longleftrightarrow> real k * d < T + d / 2)) \<and>
         (t_max = Fin 1 \<and> dt = Fin (1 / 2) \<and> is_float P (1 / 4) \<and> is_float P (1 / 2) \<and>
          is_float P 1 \<and> is_float P (5 / 4) \<and> is_float P (5 / 2) \<longrightarrow>
            t = [Fin 0, Fin (1 / 2), Fin 1] \<and> length t = 3 \<and> length Y = 3) \<and>
         (\<forall>y m. is_float P (1 / 4) \<and> is_float P (1 / 2) \<and> is_float P 1 \<and> is_float P (5 / 4) \<and>
                 is_float P (5 / 2) \<and> 96 \<le> max_intp P \<and> 12 \<le> memory P \<and>
                 length y = 4 \<and> unicode_lower P m = py ''rk4'' \<longrightarrow>
            (\<exists>Y'. integrate P self y (Fin 1) (Fin (1 / 2)) m =
                     Inr ([Fin 0, Fin (1 / 2), Fin 1], Y') \<and> length Y' = 3))"
proof -
  from integrate_grid [OF assms] obtain q where
    q: "grid_quotient P t_max dt = Fin q" and t: "t = arange_fill P (Fin 0) dt (nat \<lceil>q\<rceil>)" and
    lenY: "length Y = nat \<lceil>q\<rceil>"
    by blast
  have len: "length t = nat \<lceil>q\<rceil>" by (simp add: t length_arange_fill)
  have index: "k < length t \<longleftrightarrow> real k < q" for k
    by (simp only: len index_below_ceiling)
  from integrate_success_finite [OF assms] have dpos: "\<And>d. dt = Fin d \<Longrightarrow> 0 < d" by auto
  have 1: "\<exists>q. grid_quotient P t_max dt = Fin q \<and> length t = nat \<lceil>q\<rceil> \<and>
              (\<forall>k. k < length t \<longleftrightarrow> real k < q)"
    using q len index by blast
  have 5: "\<forall>k<length t. t ! k = fmul P (Fin (real k)) dt"
    if "float_rounding P \<and> (\<exists>d. dt = Fin d \<and> is_float P d)"
    using that integrate_samples(4) [OF assms] by blast
  have 6: "k < length t \<longleftrightarrow> real k * d < T + d / 2"
    if h: "t_max = Fin T \<and> dt = Fin d \<and> is_float P (d / 2) \<and> is_float P (T + d / 2) \<and>
           is_float P ((T + d / 2) / d)" for T d k
  proof -
    from h dpos have d: "0 < d" by simp
    then have "d \<noteq> 0" by simp
    with h quotient_exact [of P d T] have "grid_quotient P t_max dt = Fin ((T + d / 2) / d)"
      by simp
    with q have "q = (T + d / 2) / d" by simp
    then have "k < length t \<longleftrightarrow> real k < (T + d / 2) / d" by (simp only: index)
    also have "\<dots> \<longleftrightarrow> real k * d < T + d / 2" using d by (simp only: pos_less_divide_eq)
    finally show ?thesis .
  qed
  have 7: "t = [Fin 0, Fin (1 / 2), Fin 1] \<and> length t = 3 \<and> length Y = 3"
    if h: "t_max = Fin 1 \<and> dt = Fin (1 / 2) \<and> is_float P (1 / 4) \<and> is_float P (1 / 2) \<and>
           is_float P 1 \<and> is_float P (5 / 4) \<and> is_float P (5 / 2)"
  proof -
    from h have f: "is_float P (1 / 4)" "is_float P (1 / 2)" "is_float P 1" "is_float P (5 / 4)"
      "is_float P (5 / 2)" by simp_all
    from half_step_grid(1) [OF f] q h have qv: "q = 5 / 2" by simp
    have "nat \<lceil>5 / 2 :: real\<rceil> = 3" by simp
    then have n: "nat \<lceil>q\<rceil> = 3" by (simp only: qv)
    from half_step_grid(2) [OF f] t h n have "t = [Fin 0, Fin (1 / 2), Fin 1]" by simp
    with n lenY show ?thesis by simp
  qed
  have 8: "\<exists>Y'. integrate P self y (Fin 1) (Fin (1 / 2)) m =
                  Inr ([Fin 0, Fin (1 / 2), Fin 1], Y') \<and> length Y' = 3"
    if "is_float P (1 / 4) \<and> is_float P (1 / 2) \<and> is_float P 1 \<and> is_float P (5 / 4) \<and>
        is_float P (5 / 2) \<and> 96 \<le> max_intp P \<and> 12 \<le> memory P \<and>
        length y = 4 \<and> unicode_lower P m = py ''rk4''" for y m
    using that half_step_call [of P y m self] by blast
  from 1 integrate_samples(1-3) [OF assms] 5 6 7 8 show ?thesis by blast
qed

theorem grid_half_open_witness:
  "integrate exact_platform unit_pendulum at_rest (Fin 1) (Fin (1 / 2)) (py ''rk4'') =
     Inr ([Fin 0, Fin (1 / 2), Fin 1], [at_rest, at_rest, at_rest]) \<and>
   float_rounding exact_platform \<and> is_float exact_platform (1 / 4) \<and>
   is_float exact_platform (1 / 2) \<and> is_float exact_platform 1 \<and>
   is_float exact_platform (5 / 4) \<and> is_float exact_platform (5 / 2) \<and>
   (\<exists>q. grid_quotient exact_platform (Fin 1) (Fin (1 / 2)) = Fin q \<and>
        length [Fin 0, Fin (1 / 2), Fin 1 :: npfloat] = nat \<lceil>q\<rceil>) \<and>
   [Fin 0, Fin (1 / 2), Fin 1] ! 2 = fmul exact_platform (Fin (real 2)) (Fin (1 / 2)) \<and>
   (2 < length [Fin 0, Fin (1 / 2), Fin 1 :: npfloat] \<longleftrightarrow> real 2 * (1 / 2) < 1 + 1 / 2 / 2) \<and>
   (3 < length [Fin 0, Fin (1 / 2), Fin 1 :: npfloat] \<longleftrightarrow> real 3 * (1 / 2) < 1 + 1 / 2 / 2) \<and>
   96 \<le> max_intp exact_platform \<and> 12 \<le> memory exact_platform \<and> length at_rest = 4 \<and>
   unicode_lower exact_platform (py ''RK4'') = py ''rk4'' \<and>
   (\<exists>Y. integrate exact_platform unit_pendulum at_rest (Fin 1) (Fin (1 / 2)) (py ''RK4'') =
      Inr ([Fin 0, Fin (1 / 2), Fin 1], Y) \<and> length Y = 3)"
proof -
  note run = integrate_at_rest_3
  note fl = exact_platform_floats
  from grid_half_open [OF run] have
    a: "\<exists>q. grid_quotient exact_platform (Fin 1) (Fin (1 / 2)) = Fin q \<and>
            length [Fin 0, Fin (1 / 2), Fin 1 :: npfloat] = nat \<lceil>q\<rceil>"
    by blast
  from grid_half_open [OF run] fl have
    b: "\<forall>k<length [Fin 0, Fin (1 / 2), Fin 1 :: npfloat].
          [Fin 0, Fin (1 / 2), Fin 1] ! k = fmul exact_platform (Fin (real k)) (Fin (1 / 2))"
    by blast
  have c: "[Fin 0, Fin (1 / 2), Fin 1] ! 2 = fmul exact_platform (Fin (real 2)) (Fin (1 / 2))"
    by (rule b [rule_format]) simp
  have lim: "96 \<le> max_intp exact_platform" "12 \<le> memory exact_platform" "length at_rest = 4"
    by (simp_all add: exact_platform_simps at_rest_def)
  have up: "unicode_lower exact_platform (py ''RK4'') = py ''rk4''"
    by (simp add: exact_platform_simps py_def lower_cp_def ascii_lower_def)
  from grid_half_open [OF run] fl lim up have
    e: "\<exists>Y. integrate exact_platform unit_pendulum at_rest (Fin 1) (Fin (1 / 2)) (py ''RK4'') =
          Inr ([Fin 0, Fin (1 / 2), Fin 1], Y) \<and> length Y = 3"
    by blast
  show ?thesis
    using run fl(2) fl(1) [of "1 / 4"] fl(1) [of "1 / 2"] fl(1) [of 1] fl(1) [of "5 / 4"]
      fl(1) [of "5 / 2"] a c lim up e
    by simp
qed

text \<open>
  C4, as stated, fails: the last sample can lie before \<open>t_max\<close>. With \<open>t_max = 1.0\<close> and
  \<open>dt = 0.75\<close> the grid is \<open>[0.0, 0.75]\<close>.
\<close>

theorem last_sample_before_t_max_counterexample:
  "integrate exact_platform unit_pendulum at_rest (Fin 1) (Fin (3 / 4)) (py ''rk4'') =
     Inr ([Fin 0, Fin (3 / 4)], [at_rest, at_rest]) \<and>
   [Fin 0, Fin (3 / 4)] ! (length [Fin 0, Fin (3 / 4) :: npfloat] - 1) < Fin 1"
  by (simp add: integrate_at_rest_2)

text \<open>
  C4, amended. A call that returns \<open>(t, Y)\<close> returns two sequences of one length
  \<open>N \<ge> 1\<close>, with \<open>t[0] = 0\<close> and \<open>Y[0] = y0\<close>. The time samples are the products \<open>k dt\<close>,
  rounded, so that consecutive samples differ by the constant step \<open>dt\<close> up to
  rounding. The last index \<open>N - 1\<close> is the largest integer strictly below the float
  quotient \<open>(t_max + dt / 2) / dt\<close>: the grid is neither cut at \<open>t_max\<close> nor extended
  beyond it, and the last sample may lie before \<open>t_max\<close>. Where \<open>dt / 2\<close>,
  \<open>t_max + dt / 2\<close>, the quotient and \<open>(N - 1) dt\<close> are computed without rounding, the
  last sample lies within half a step of \<open>t_max\<close>:
  \<open>t_max - dt / 2 \<le> t[N - 1] < t_max + dt / 2\<close>.
\<close>

theorem trajectory_shape:
  assumes "integrate P self y0 t_max dt method = Inr (t, Y)"
  shows "length t = length Y \<and> 1 \<le> length t \<and> t ! 0 = Fin 0 \<and> Y ! 0 = y0 \<and>
         (\<exists>q. grid_quotient P t_max dt = Fin q \<and> length t = nat \<lceil>q\<rceil> \<and>
              real (length t - 1) < q \<and> q \<le> real (length t)) \<and>
         (float_rounding P \<and> (\<exists>d. dt = Fin d \<and> is_float P d) \<longrightarrow>
            (\<forall>k<length t. t ! k = fmul P (Fin (real k)) dt)) \<and>
         (\<forall>T d. t_max = Fin T \<and> dt = Fin d \<and> float_rounding P \<and> is_float P d \<and>
                 is_float P (d / 2) \<and> is_float P (T + d / 2) \<and> is_float P ((T + d / 2) / d) \<and>
                 is_float P (real (length t - 1) * d) \<longrightarrow>
            t ! (length t - 1) = Fin (real (length t - 1) * d) \<and>
            T - d / 2 \<le> real (length t - 1) * d \<and>
            real (length t - 1) * d < T + d / 2)"
proof -
  from integrate_grid [OF assms] obtain q where
    q: "grid_quotient P t_max dt = Fin q" and t: "t = arange_fill P (Fin 0) dt (nat \<lceil>q\<rceil>)" and
    pos: "0 < nat \<lceil>q\<rceil>" and lenY: "length Y = nat \<lceil>q\<rceil>" and first: "Y ! 0 = y0"
    by blast
  have len: "length t = nat \<lceil>q\<rceil>" by (simp add: t length_arange_fill)
  from last_index_bounds [OF pos] have
    bounds: "real (length t - 1) < q" "q \<le> real (length t)"
    by (simp_all only: len)
  from integrate_success_finite [OF assms] have dpos: "\<And>d. dt = Fin d \<Longrightarrow> 0 < d" by auto
  have 5: "\<exists>q. grid_quotient P t_max dt = Fin q \<and> length t = nat \<lceil>q\<rceil> \<and>
              real (length t - 1) < q \<and> q \<le> real (length t)"
    using q len bounds by blast
  have 6: "\<forall>k<length t. t ! k = fmul P (Fin (real k)) dt"
    if "float_rounding P \<and> (\<exists>d. dt = Fin d \<and> is_float P d)"
    using that integrate_samples(4) [OF assms] by blast
  have 7: "t ! (length t - 1) = Fin (real (length t - 1) * d) \<and>
           T - d / 2 \<le> real (length t - 1) * d \<and>
           real (length t - 1) * d < T + d / 2"
    if h: "t_max = Fin T \<and> dt = Fin d \<and> float_rounding P \<and> is_float P d \<and>
           is_float P (d / 2) \<and> is_float P (T + d / 2) \<and> is_float P ((T + d / 2) / d) \<and>
           is_float P (real (length t - 1) * d)" for T d
  proof -
    from h dpos have d: "0 < d" by simp
    then have "d \<noteq> 0" by simp
    with h quotient_exact [of P d T] have "grid_quotient P t_max dt = Fin ((T + d / 2) / d)"
      by simp
    with q have qv: "q = (T + d / 2) / d" by simp
    have qd: "q * d = T + d / 2" using d by (simp add: qv)
    have last: "length t - 1 < length t" using pos len by simp
    from h have fr: "float_rounding P" and dt: "dt = Fin d" and fd: "is_float P d" by simp_all
    from integrate_samples(4) [OF assms fr dt fd last]
    have "t ! (length t - 1) = fmul P (Fin (real (length t - 1))) (Fin d)" by (simp only: dt)
    also have "\<dots> = Fin (real (length t - 1) * d)" using h by (simp add: is_float_def)
    finally have sample: "t ! (length t - 1) = Fin (real (length t - 1) * d)" .
    from last obtain n where n: "length t = Suc n" by (cases "length t") simp_all
    have lm: "length t - 1 = n" by (simp add: n)
    from bounds have bn: "real n < q" "q \<le> real n + 1" by (simp_all add: n)
    from bn(1) have "real n * d < q * d"
      using d by (simp only: mult_less_cancel_right_pos)
    then have "real n * d < T + d / 2" by (simp only: qd)
    then have up: "real (length t - 1) * d < T + d / 2" by (simp only: lm)
    from bn(2) have "q * d \<le> (real n + 1) * d"
      using d by (simp only: mult_le_cancel_right_pos)
    then have "T + d / 2 \<le> (real n + 1) * d" by (simp only: qd)
    then have "T - d / 2 \<le> real n * d" by (simp add: algebra_simps)
    then have lo: "T - d / 2 \<le> real (length t - 1) * d" by (simp only: lm)
    from sample lo up show ?thesis by simp
  qed
  from pos have "0 < length t" by (simp only: len)
  then have one: "1 \<le> length t" by (cases t) simp_all
  have same: "length t = length Y" using len lenY by simp
  from same one integrate_samples(1) [OF assms] first 5 6 7 show ?thesis by blast
qed

theorem trajectory_shape_witness:
  "integrate exact_platform unit_pendulum at_rest (Fin 1) (Fin (3 / 4)) (py ''rk4'') =
     Inr ([Fin 0, Fin (3 / 4)], [at_rest, at_rest]) \<and>
   float_rounding exact_platform \<and>
   is_float exact_platform (3 / 4) \<and> is_float exact_platform (3 / 4 / 2) \<and>
   is_float exact_platform (1 + 3 / 4 / 2) \<and> is_float exact_platform ((1 + 3 / 4 / 2) / (3 / 4)) \<and>
   is_float exact_platform (real (length [Fin 0, Fin (3 / 4) :: npfloat] - 1) * (3 / 4)) \<and>
   length [Fin 0, Fin (3 / 4) :: npfloat] = length [at_rest, at_rest] \<and>
   [at_rest, at_rest] ! 0 = at_rest \<and>
   [Fin 0, Fin (3 / 4)] ! (length [Fin 0, Fin (3 / 4) :: npfloat] - 1) = Fin (3 / 4) \<and>
   (1 :: real) - 3 / 4 / 2 \<le> 3 / 4 \<and> (3 / 4 :: real) < 1 + 3 / 4 / 2"
proof -
  note run = integrate_at_rest_2
  note fl = exact_platform_floats
  let ?t = "[Fin 0, Fin (3 / 4) :: npfloat]"
  from trajectory_shape [OF run] have
    a: "length ?t = length [at_rest, at_rest]" "[at_rest, at_rest] ! 0 = at_rest"
    by blast+
  from trajectory_shape [OF run] have
    "\<forall>T d. Fin 1 = Fin T \<and> Fin (3 / 4) = Fin d \<and> float_rounding exact_platform \<and>
            is_float exact_platform d \<and> is_float exact_platform (d / 2) \<and>
            is_float exact_platform (T + d / 2) \<and> is_float exact_platform ((T + d / 2) / d) \<and>
            is_float exact_platform (real (length ?t - 1) * d) \<longrightarrow>
       ?t ! (length ?t - 1) = Fin (real (length ?t - 1) * d) \<and>
       T - d / 2 \<le> real (length ?t - 1) * d \<and>
       real (length ?t - 1) * d < T + d / 2"
    by blast
  from this [rule_format, of 1 "3 / 4"] fl have
    b: "?t ! (length ?t - 1) = Fin (real (length ?t - 1) * (3 / 4)) \<and>
        1 - 3 / 4 / 2 \<le> real (length ?t - 1) * (3 / 4) \<and>
        real (length ?t - 1) * (3 / 4) < 1 + 3 / 4 / 2"
    by blast
  show ?thesis
    using run fl(2) fl(1) [of "3 / 4"] fl(1) [of "3 / 4 / 2"] fl(1) [of "1 + 3 / 4 / 2"]
      fl(1) [of "(1 + 3 / 4 / 2) / (3 / 4)"] fl(1) [of "real (length ?t - 1) * (3 / 4)"] a b
    by simp
qed

section \<open>Rejected calls\<close>

lemma np_arange_ValueError:
  "(\<exists>ve. np_arange P start stop step = Inl (ValueError ve)) \<longleftrightarrow>
     (\<forall>q. fdiv P (fsub P stop start) step = Fin q \<longrightarrow>
        \<lceil>q\<rceil> < - max_intp P - 1 \<or> max_intp P < \<lceil>q\<rceil> \<or> max_intp P < 8 * int (nat \<lceil>q\<rceil>))"
  by (cases "fdiv P (fsub P stop start) step")
     (auto simp: np_arange_def np_alloc_def bind_result_simps)

lemma integrate_outcome:
  assumes "\<not> dt \<le> Fin 0" and "\<not> t_max \<le> Fin 0" and "length y0 = 4"
  shows "(\<exists>e. np_arange P (Fin 0) (fadd P t_max (fdiv P dt (Fin 2))) dt = Inl e \<and>
              integrate P self y0 t_max dt method = Inl e) \<or>
         (\<exists>t e. np_arange P (Fin 0) (fadd P t_max (fdiv P dt (Fin 2))) dt = Inr t \<and>
              np_zeros P (length t) 4 = Inl e \<and> integrate P self y0 t_max dt method = Inl e) \<or>
         (\<exists>Y0. np_arange P (Fin 0) (fadd P t_max (fdiv P dt (Fin 2))) dt = Inr [] \<and>
              np_zeros P 0 4 = Inr Y0 \<and> integrate P self y0 t_max dt method = Inl IndexError) \<or>
         (\<exists>t Y0. np_arange P (Fin 0) (fadd P t_max (fdiv P dt (Fin 2))) dt = Inr t \<and> t \<noteq> [] \<and>
              np_zeros P (length t) 4 = Inr Y0 \<and> unicode_lower P method \<noteq> py ''rk4'' \<and>
              integrate P self y0 t_max dt method = Inl (NotImplementedError method)) \<or>
         (\<exists>t Y0 Y. np_arange P (Fin 0) (fadd P t_max (fdiv P dt (Fin 2))) dt = Inr t \<and> t \<noteq> [] \<and>
              np_zeros P (length t) 4 = Inr Y0 \<and> unicode_lower P method = py ''rk4'' \<and>
              integrate P self y0 t_max dt method = Inr (t, Y))"
proof (cases "np_arange P (Fin 0) (fadd P t_max (fdiv P dt (Fin 2))) dt")
  case (Inl e)
  from integrate_arange_fails [OF assms Inl] Inl show ?thesis by blast
next
  case grid: (Inr t)
  show ?thesis
  proof (cases "np_zeros P (length t) 4")
    case (Inl e)
    from integrate_zeros_fails [OF assms grid Inl] grid Inl show ?thesis by blast
  next
    case zeros: (Inr Y0)
    show ?thesis
    proof (cases "t = []")
      case True
      with grid zeros have g: "np_arange P (Fin 0) (fadd P t_max (fdiv P dt (Fin 2))) dt = Inr []"
        and z: "np_zeros P 0 4 = Inr Y0" by simp_all
      from integrate_empty_grid [OF assms g z] g z show ?thesis by blast
    next
      case nonempty: False
      show ?thesis
      proof (cases "unicode_lower P method = py ''rk4''")
        case True
        from integrate_rk4 [OF assms grid nonempty zeros True] grid nonempty zeros True
        show ?thesis by blast
      next
        case False
        from integrate_unsupported [OF assms grid nonempty zeros False] grid nonempty zeros False
        show ?thesis by blast
      qed
    qed
  qed
qed

lemma derivatives_nan:
  "derivatives exact_platform unit_pendulum [NaN, x, y, z] = Inr [y, z, NaN, NaN]"
  by (simp add: derivatives_unfold fl_denom1_def fl_denom2_def fl_num1_def fl_num2_def
      nan_absorbs del: derivatives.simps)

lemma rk4_row_nan:
  "rk4_row exact_platform unit_pendulum (Fin 1) [NaN, Fin 0, Fin 0, Fin 0] =
     Inr [NaN, NaN, NaN, NaN]"
  by (simp add: rk4_row_def bind_result_simps vadd_def smul_def derivatives_nan nan_absorbs
      exact_platform_simps del: derivatives.simps)

lemma exact_grid_built:
  assumes "0 < d" and "0 < T" and "(T + d / 2) / d \<le> 2 ^ 28"
    and "nat \<lceil>(T + d / 2) / d\<rceil> = n"
  shows "np_arange exact_platform (Fin 0)
           (fadd exact_platform (Fin T) (fdiv exact_platform (Fin d) (Fin 2))) (Fin d) =
           Inr (map (\<lambda>i. Fin (real i * d)) [0..<n])"
    and "0 < n"
    and "np_zeros exact_platform n 4 = Inr (replicate n (replicate 4 (Fin 0)))"
proof -
  show "np_arange exact_platform (Fin 0)
           (fadd exact_platform (Fin T) (fdiv exact_platform (Fin d) (Fin 2))) (Fin d) =
           Inr (map (\<lambda>i. Fin (real i * d)) [0..<n])"
    using grid_exact [OF assms(1-3)] assms(4) by simp
  have "0 < (T + d / 2) / d" using assms(1,2) by simp
  then have "0 < \<lceil>(T + d / 2) / d\<rceil>" by simp
  then have "0 < nat \<lceil>(T + d / 2) / d\<rceil>" by (simp only: zero_less_nat_eq)
  then show "0 < n" by (simp only: assms(4))
  have "\<lceil>(T + d / 2) / d\<rceil> \<le> \<lceil>2 ^ 28 :: real\<rceil>" using assms(3) by (rule ceiling_mono)
  then have "\<lceil>(T + d / 2) / d\<rceil> \<le> int (2 ^ 28)" by simp
  then have "nat \<lceil>(T + d / 2) / d\<rceil> \<le> 2 ^ 28" by (simp only: nat_le_iff)
  then have "n \<le> 2 ^ 28" by (simp only: assms(4))
  then have "n * 4 \<le> 2 ^ 30" by simp
  then show "np_zeros exact_platform n 4 = Inr (replicate n (replicate 4 (Fin 0)))"
    by (rule np_zeros_small)
qed

lemma integrate_nan:
  "integrate exact_platform unit_pendulum [NaN, Fin 0, Fin 0, Fin 0] (Fin 1) (Fin 1) (py ''rk4'') =
     Inr ([Fin 0, Fin 1], [[NaN, Fin 0, Fin 0, Fin 0], [NaN, NaN, NaN, NaN]])"
proof -
  have "\<lceil>(3 :: real) / 2\<rceil> = 2" by linarith
  then have n: "nat \<lceil>((1 :: real) + 1 / 2) / 1\<rceil> = 2" by simp
  have small: "((1 :: real) + 1 / 2) / 1 \<le> 2 ^ 28" by simp
  have pos: "(0 :: real) < 1" by simp
  note built = exact_grid_built [OF pos pos small n]
  have checks: "\<not> Fin 1 \<le> Fin 0" "\<not> Fin 1 \<le> Fin 0" "length [NaN, Fin 0, Fin 0, Fin 0] = 4"
    by simp_all
  have grid: "np_arange exact_platform (Fin 0)
                (fadd exact_platform (Fin 1) (fdiv exact_platform (Fin 1) (Fin 2))) (Fin 1) =
                Inr [Fin 0, Fin 1]"
    using built(1) by (simp add: upt_0_2)
  have "length [Fin 0, Fin 1 :: npfloat] = 2" by simp
  then have zeros: "np_zeros exact_platform (length [Fin 0, Fin 1 :: npfloat]) 4 =
                 Inr (replicate 2 (replicate 4 (Fin 0)))"
    using built(3) by (simp only:)
  from integrate_rk4 [OF checks grid _ zeros lower_rk4, of unit_pendulum]
  obtain Y where
    run: "integrate exact_platform unit_pendulum [NaN, Fin 0, Fin 0, Fin 0] (Fin 1) (Fin 1)
            (py ''rk4'') = Inr ([Fin 0, Fin 1], Y)"
    and len: "length Y = 2" and first: "Y ! 0 = [NaN, Fin 0, Fin 0, Fin 0]"
    and steps: "\<forall>i. Suc i < length Y \<longrightarrow>
                  rk4_row exact_platform unit_pendulum (Fin 1) (Y ! i) = Inr (Y ! Suc i)"
    by auto
  from steps len have "rk4_row exact_platform unit_pendulum (Fin 1) (Y ! 0) = Inr (Y ! Suc 0)"
    by simp
  then have "Inr (Y ! Suc 0) = (Inr [NaN, NaN, NaN, NaN] :: py_error + ndarray)"
    by (simp only: first rk4_row_nan)
  then have second: "Y ! Suc 0 = [NaN, NaN, NaN, NaN]" by (simp only: sum.inject)
  from len obtain a b where Y: "Y = [a, b]"
    by (cases Y; cases "tl Y") auto
  with first second have "Y = [[NaN, Fin 0, Fin 0, Fin 0], [NaN, NaN, NaN, NaN]]" by simp
  with run show ?thesis by simp
qed

lemma integrate_nan_t_max:
  "integrate exact_platform unit_pendulum at_rest NaN (Fin 1) m = Inl (ValueError ArangeLength)"
  by (simp add: integrate_def at_rest_def np_arange_def fsub_def nan_absorbs bind_result_simps)

lemma quotient_overflows:
  "grid_quotient overflow_platform (Fin huge) (Fin (1 / 2)) = PInf"
  by (simp add: grid_quotient_def fsub_def overflow_platform_simps overflow_rnd_def huge_def)

lemma integrate_overflow:
  "integrate overflow_platform unit_pendulum at_rest (Fin huge) (Fin (1 / 2)) m =
     Inl (ValueError ArangeLength)"
proof -
  have "0 < huge" by (simp add: huge_def)
  then have checks: "\<not> Fin (1 / 2) \<le> Fin 0" "\<not> Fin huge \<le> Fin 0" "length at_rest = 4"
    by (simp_all add: at_rest_def)
  have "np_arange overflow_platform (Fin 0)
          (fadd overflow_platform (Fin huge) (fdiv overflow_platform (Fin (1 / 2)) (Fin 2)))
          (Fin (1 / 2)) = Inl (ValueError ArangeLength)"
    using quotient_overflows by (simp add: np_arange_def grid_quotient_def)
  from integrate_arange_fails [OF checks this] show ?thesis .
qed

text \<open>
  C6, as stated, fails: the elements of \<open>y0\<close> are not examined. An initial state
  with a \<open>NaN\<close> component is accepted and integrated.
\<close>

theorem integrate_accepts_nan_counterexample:
  "\<not> is_finite NaN \<and>
   integrate exact_platform unit_pendulum [NaN, Fin 0, Fin 0, Fin 0] (Fin 1) (Fin 1) (py ''rk4'') =
     Inr ([Fin 0, Fin 1], [[NaN, Fin 0, Fin 0, Fin 0], [NaN, NaN, NaN, NaN]])"
  using integrate_nan by (simp add: is_finite_def)

text \<open>
  C6, amended. \<open>integrate\<close> fails with a \<open>ValueError\<close> exactly when \<open>dt \<le> 0\<close>, or
  \<open>t_max \<le> 0\<close>, or \<open>y0\<close> does not have exactly four components (whether these are
  finite is not examined), or, these three checks passed, numpy refuses the size of the
  time grid or of the state array. The three checks reject in this order. \<^verbatim>\<open>np.arange\<close>
  refuses when the float quotient \<open>(t_max + dt / 2) / dt\<close> is not a finite number (as for
  a \<open>t_max\<close> or \<open>dt\<close> that is not a number, or when the quotient overflows), or when its
  ceiling is outside the index type or too large for an array of floats. A failing call
  returns an error and no trajectory.
\<close>

theorem integrate_value_error_iff:
  "((\<exists>ve. integrate P self y0 t_max dt method = Inl (ValueError ve)) \<longleftrightarrow>
      (dt \<le> Fin 0 \<or> t_max \<le> Fin 0 \<or> length y0 \<noteq> 4 \<or>
       (\<exists>ve. np_arange P (Fin 0) (fadd P t_max (fdiv P dt (Fin 2))) dt = Inl (ValueError ve)) \<or>
       (\<exists>t ve. np_arange P (Fin 0) (fadd P t_max (fdiv P dt (Fin 2))) dt = Inr t \<and>
                np_zeros P (length t) 4 = Inl (ValueError ve)))) \<and>
   (dt \<le> Fin 0 \<longrightarrow> integrate P self y0 t_max dt method = Inl (ValueError StepNotPositive)) \<and>
   (\<not> dt \<le> Fin 0 \<and> t_max \<le> Fin 0 \<longrightarrow>
      integrate P self y0 t_max dt method = Inl (ValueError TmaxNotPositive)) \<and>
   (\<not> dt \<le> Fin 0 \<and> \<not> t_max \<le> Fin 0 \<and> length y0 \<noteq> 4 \<longrightarrow>
      integrate P self y0 t_max dt method = Inl (ValueError BadShape)) \<and>
   ((\<exists>ve. np_arange P (Fin 0) (fadd P t_max (fdiv P dt (Fin 2))) dt = Inl (ValueError ve)) \<longleftrightarrow>
      (\<forall>q. grid_quotient P t_max dt = Fin q \<longrightarrow>
         \<lceil>q\<rceil> < - max_intp P - 1 \<or> max_intp P < \<lceil>q\<rceil> \<or> max_intp P < 8 * int (nat \<lceil>q\<rceil>))) \<and>
   (\<forall>t. (\<exists>ve. np_zeros P (length t) 4 = Inl (ValueError ve)) \<longleftrightarrow>
           max_intp P < 8 * int (length t * 4)) \<and>
   (\<forall>e. integrate P self y0 t_max dt method = Inl e \<longrightarrow>
      (\<forall>t Y. integrate P self y0 t_max dt method \<noteq> Inr (t, Y)))"
proof -
  let ?grid = "np_arange P (Fin 0) (fadd P t_max (fdiv P dt (Fin 2))) dt"
  have a: "\<exists>ve. integrate P self y0 t_max dt method = Inl (ValueError ve)"
    if "dt \<le> Fin 0 \<or> t_max \<le> Fin 0 \<or> length y0 \<noteq> 4"
    using that by (auto simp: integrate_def)
  have b: "\<exists>ve. integrate P self y0 t_max dt method = Inl (ValueError ve)"
    if "\<not> (dt \<le> Fin 0 \<or> t_max \<le> Fin 0 \<or> length y0 \<noteq> 4)" and "?grid = Inl (ValueError ve)"
    for ve
  proof -
    from that(1) have checks: "\<not> dt \<le> Fin 0" "\<not> t_max \<le> Fin 0" "length y0 = 4" by simp_all
    from integrate_arange_fails [OF checks that(2)] show ?thesis by blast
  qed
  have c: "\<exists>ve. integrate P self y0 t_max dt method = Inl (ValueError ve)"
    if "\<not> (dt \<le> Fin 0 \<or> t_max \<le> Fin 0 \<or> length y0 \<noteq> 4)" and "?grid = Inr t"
      and "np_zeros P (length t) 4 = Inl (ValueError ve)"
    for t ve
  proof -
    from that(1) have checks: "\<not> dt \<le> Fin 0" "\<not> t_max \<le> Fin 0" "length y0 = 4" by simp_all
    from integrate_zeros_fails [OF checks that(2,3)] show ?thesis by blast
  qed
  have d: "(\<exists>ve. ?grid = Inl (ValueError ve)) \<or>
           (\<exists>t ve. ?grid = Inr t \<and> np_zeros P (length t) 4 = Inl (ValueError ve))"
    if "\<not> (dt \<le> Fin 0 \<or> t_max \<le> Fin 0 \<or> length y0 \<noteq> 4)"
      and "integrate P self y0 t_max dt method = Inl (ValueError ve)"
    for ve
  proof -
    from that(1) have checks: "\<not> dt \<le> Fin 0" "\<not> t_max \<le> Fin 0" "length y0 = 4" by simp_all
    from integrate_outcome [OF checks, of P self "method"] that(2) show ?thesis by auto
  qed
  have iff: "(\<exists>ve. integrate P self y0 t_max dt method = Inl (ValueError ve)) \<longleftrightarrow>
      (dt \<le> Fin 0 \<or> t_max \<le> Fin 0 \<or> length y0 \<noteq> 4 \<or>
       (\<exists>ve. ?grid = Inl (ValueError ve)) \<or>
       (\<exists>t ve. ?grid = Inr t \<and> np_zeros P (length t) 4 = Inl (ValueError ve)))"
    using a b c d by blast
  have grid: "(\<exists>ve. ?grid = Inl (ValueError ve)) \<longleftrightarrow>
      (\<forall>q. grid_quotient P t_max dt = Fin q \<longrightarrow>
         \<lceil>q\<rceil> < - max_intp P - 1 \<or> max_intp P < \<lceil>q\<rceil> \<or> max_intp P < 8 * int (nat \<lceil>q\<rceil>))"
    unfolding grid_quotient_def by (rule np_arange_ValueError)
  have zeros: "\<forall>t. (\<exists>ve. np_zeros P (length t) 4 = Inl (ValueError ve)) \<longleftrightarrow>
                 max_intp P < 8 * int (length t * 4)"
    by (simp add: np_zeros_ValueError)
  have excl: "\<forall>e. integrate P self y0 t_max dt method = Inl e \<longrightarrow>
      (\<forall>t Y. integrate P self y0 t_max dt method \<noteq> Inr (t, Y))"
    by simp
  have inv:
    "dt \<le> Fin 0 \<longrightarrow> integrate P self y0 t_max dt method = Inl (ValueError StepNotPositive)"
    "\<not> dt \<le> Fin 0 \<and> t_max \<le> Fin 0 \<longrightarrow>
       integrate P self y0 t_max dt method = Inl (ValueError TmaxNotPositive)"
    "\<not> dt \<le> Fin 0 \<and> \<not> t_max \<le> Fin 0 \<and> length y0 \<noteq> 4 \<longrightarrow>
       integrate P self y0 t_max dt method = Inl (ValueError BadShape)"
    by (simp_all add: integrate_invalid)
  from iff inv grid zeros excl show ?thesis by (intro conjI)
qed

theorem integrate_value_error_iff_witness:
  "Fin 0 \<le> Fin 0 \<and>
   integrate exact_platform unit_pendulum at_rest (Fin 1) (Fin 0) (py ''rk4'') =
     Inl (ValueError StepNotPositive) \<and>
   Fin (- 1) \<le> Fin 0 \<and>
   integrate exact_platform unit_pendulum at_rest (Fin (- 1)) (Fin (1 / 10)) (py ''rk4'') =
     Inl (ValueError TmaxNotPositive) \<and>
   length [Fin 0, Fin 0, Fin 0] \<noteq> 4 \<and>
   integrate exact_platform unit_pendulum [Fin 0, Fin 0, Fin 0] (Fin 1) (Fin (1 / 10)) (py ''rk4'') =
     Inl (ValueError BadShape) \<and>
   grid_quotient overflow_platform (Fin huge) (Fin (1 / 2)) = PInf \<and>
   (\<exists>ve. integrate overflow_platform unit_pendulum at_rest (Fin huge) (Fin (1 / 2)) (py ''rk4'') =
      Inl (ValueError ve))"
proof -
  have h1: "Fin 0 \<le> Fin 0" by simp
  have h2: "\<not> Fin (1 / 10) \<le> Fin 0 \<and> Fin (- 1) \<le> Fin 0" by simp
  have h3: "\<not> Fin (1 / 10) \<le> Fin 0 \<and> \<not> Fin 1 \<le> Fin 0 \<and> length [Fin 0, Fin 0, Fin 0] \<noteq> 4"
    by simp
  have h4: "\<forall>q. grid_quotient overflow_platform (Fin huge) (Fin (1 / 2)) = Fin q \<longrightarrow>
              \<lceil>q\<rceil> < - max_intp overflow_platform - 1 \<or> max_intp overflow_platform < \<lceil>q\<rceil> \<or>
              max_intp overflow_platform < 8 * int (nat \<lceil>q\<rceil>)"
    by (simp add: quotient_overflows)
  from integrate_value_error_iff
         [of exact_platform unit_pendulum at_rest "Fin 1" "Fin 0" "py ''rk4''"] h1
  have a: "integrate exact_platform unit_pendulum at_rest (Fin 1) (Fin 0) (py ''rk4'') =
             Inl (ValueError StepNotPositive)"
    by blast
  from integrate_value_error_iff
         [of exact_platform unit_pendulum at_rest "Fin (- 1)" "Fin (1 / 10)" "py ''rk4''"] h2
  have b: "integrate exact_platform unit_pendulum at_rest (Fin (- 1)) (Fin (1 / 10)) (py ''rk4'') =
             Inl (ValueError TmaxNotPositive)"
    by blast
  from integrate_value_error_iff
         [of exact_platform unit_pendulum "[Fin 0, Fin 0, Fin 0]" "Fin 1" "Fin (1 / 10)"
             "py ''rk4''"] h3
  have c: "integrate exact_platform unit_pendulum [Fin 0, Fin 0, Fin 0] (Fin 1) (Fin (1 / 10))
             (py ''rk4'') = Inl (ValueError BadShape)"
    by blast
  from integrate_value_error_iff
         [of overflow_platform unit_pendulum at_rest "Fin huge" "Fin (1 / 2)" "py ''rk4''"] h4
  have d: "\<exists>ve. integrate overflow_platform unit_pendulum at_rest (Fin huge) (Fin (1 / 2))
             (py ''rk4'') = Inl (ValueError ve)"
    by blast
  from h1 h2 h3 a b c d quotient_overflows show ?thesis by simp
qed

section \<open>The method name\<close>

lemma py_names:
  "py ''rk4'' = [114, 107, 52]" "py ''rK4'' = [114, 75, 52]"
  "py ''Rk4'' = [82, 107, 52]" "py ''RK4'' = [82, 75, 52]"
  by (simp_all add: py_def)

lemma ascii_lower_eq:
  "ascii_lower c = 114 \<longleftrightarrow> c = 114 \<or> c = 82"
  "ascii_lower c = 107 \<longleftrightarrow> c = 107 \<or> c = 75"
  "ascii_lower c = 52 \<longleftrightarrow> c = 52"
  by (auto simp: ascii_lower_def)

lemma ascii_rk4_iff:
  "map ascii_lower s = py ''rk4'' \<longleftrightarrow> s \<in> {py ''rk4'', py ''rK4'', py ''Rk4'', py ''RK4''}"
proof -
  have "map ascii_lower s = py ''rk4'' \<longleftrightarrow>
          (\<exists>a b c. s = [a, b, c] \<and> ascii_lower a = 114 \<and> ascii_lower b = 107 \<and>
             ascii_lower c = 52)"
    by (auto simp: py_names map_eq_Cons_conv)
  also have "\<dots> \<longleftrightarrow> s \<in> {py ''rk4'', py ''rK4'', py ''Rk4'', py ''RK4''}"
    unfolding ascii_lower_eq py_names by auto
  finally show ?thesis .
qed

lemma exact_platform_ascii: "ascii_lower_ok exact_platform"
  by (auto simp: ascii_lower_ok_def is_ascii_def list_all_iff lower_cp_def exact_platform_simps)

lemma lower_kelvin: "unicode_lower exact_platform [114, 8490, 52] = py ''rk4''"
  by (simp add: exact_platform_simps py_names lower_cp_def ascii_lower_def)

lemma lower_upper: "unicode_lower exact_platform (py ''RK4'') = py ''rk4''"
  by (simp add: exact_platform_simps py_names lower_cp_def ascii_lower_def)

text \<open>
  C7, as stated, fails: the arguments are checked before the method. A call with an
  unknown method and a non-positive \<open>t_max\<close> fails with the \<open>ValueError\<close> of the
  argument check, not with a \<open>NotImplementedError\<close>.
\<close>

theorem unknown_method_invalid_argument_counterexample:
  "unicode_lower exact_platform (py ''euler'') \<noteq> py ''rk4'' \<and>
   integrate exact_platform unit_pendulum at_rest (Fin (- 1)) (Fin (1 / 10)) (py ''euler'') =
     Inl (ValueError TmaxNotPositive)"
  using lower_euler by (simp add: integrate_def)

text \<open>
  C7, amended. When an argument check fails, or \<^verbatim>\<open>np.arange\<close> or \<^verbatim>\<open>np.zeros\<close> raises, that
  error is raised whatever the method is: the method has not been looked at. When the
  checks pass and the time grid and the state array are built, a method whose
  lower-case form (\<^verbatim>\<open>str.lower\<close>) is \<open>rk4\<close> runs the RK4 scheme and returns, and every
  other method fails with a \<open>NotImplementedError\<close> that names the method as it was
  given; a call that returns has run the RK4 scheme, so no other scheme ever runs. Among
  the ASCII names, those with the lower-case form \<open>rk4\<close> are exactly \<open>rk4\<close>, \<open>rK4\<close>,
  \<open>Rk4\<close> and \<open>RK4\<close>; a name that is not ASCII can have it too, as \<open>r\<close>, Kelvin sign
  (U+212A), \<open>4\<close>.
\<close>

theorem integrate_method_dispatch:
  "(dt \<le> Fin 0 \<or> t_max \<le> Fin 0 \<or> length y0 \<noteq> 4 \<longrightarrow>
      (\<exists>ve. \<forall>m. integrate P self y0 t_max dt m = Inl (ValueError ve))) \<and>
   (\<forall>e. \<not> dt \<le> Fin 0 \<and> \<not> t_max \<le> Fin 0 \<and> length y0 = 4 \<and>
         np_arange P (Fin 0) (fadd P t_max (fdiv P dt (Fin 2))) dt = Inl e \<longrightarrow>
      (\<forall>m. integrate P self y0 t_max dt m = Inl e)) \<and>
   (\<forall>t e. \<not> dt \<le> Fin 0 \<and> \<not> t_max \<le> Fin 0 \<and> length y0 = 4 \<and>
           np_arange P (Fin 0) (fadd P t_max (fdiv P dt (Fin 2))) dt = Inr t \<and>
           np_zeros P (length t) 4 = Inl e \<longrightarrow>
      (\<forall>m. integrate P self y0 t_max dt m = Inl e)) \<and>
   (\<forall>t Y0. \<not> dt \<le> Fin 0 \<and> \<not> t_max \<le> Fin 0 \<and> length y0 = 4 \<and>
            np_arange P (Fin 0) (fadd P t_max (fdiv P dt (Fin 2))) dt = Inr t \<and> t \<noteq> [] \<and>
            np_zeros P (length t) 4 = Inr Y0 \<longrightarrow>
      (unicode_lower P method = py ''rk4'' \<longrightarrow>
         (\<exists>Y. integrate P self y0 t_max dt method = Inr (t, Y) \<and> length Y = length t \<and>
              Y ! 0 = y0 \<and>
              (\<forall>i. Suc i < length Y \<longrightarrow> rk4_row P self dt (Y ! i) = Inr (Y ! Suc i)))) \<and>
      (unicode_lower P method \<noteq> py ''rk4'' \<longrightarrow>
         integrate P self y0 t_max dt method = Inl (NotImplementedError method))) \<and>
   (\<forall>t Y. integrate P self y0 t_max dt method = Inr (t, Y) \<longrightarrow>
      unicode_lower P method = py ''rk4'' \<and>
      (\<forall>i. Suc i < length Y \<longrightarrow> rk4_row P self dt (Y ! i) = Inr (Y ! Suc i))) \<and>
   (ascii_lower_ok P \<and> is_ascii method \<longrightarrow>
      (unicode_lower P method = py ''rk4'' \<longleftrightarrow>
         method \<in> {py ''rk4'', py ''rK4'', py ''Rk4'', py ''RK4''}))"
proof -
  have 1: "\<exists>ve. \<forall>m. integrate P self y0 t_max dt m = Inl (ValueError ve)"
    if "dt \<le> Fin 0 \<or> t_max \<le> Fin 0 \<or> length y0 \<noteq> 4"
    using that by (auto simp: integrate_def)
  have 2: "\<forall>m. integrate P self y0 t_max dt m = Inl e"
    if "\<not> dt \<le> Fin 0 \<and> \<not> t_max \<le> Fin 0 \<and> length y0 = 4 \<and>
        np_arange P (Fin 0) (fadd P t_max (fdiv P dt (Fin 2))) dt = Inl e" for e
    using that by (simp add: integrate_arange_fails)
  have 3: "\<forall>m. integrate P self y0 t_max dt m = Inl e"
    if "\<not> dt \<le> Fin 0 \<and> \<not> t_max \<le> Fin 0 \<and> length y0 = 4 \<and>
        np_arange P (Fin 0) (fadd P t_max (fdiv P dt (Fin 2))) dt = Inr t \<and>
        np_zeros P (length t) 4 = Inl e" for t e
  proof
    fix m
    from that have checks: "\<not> dt \<le> Fin 0" "\<not> t_max \<le> Fin 0" "length y0 = 4"
      and grid: "np_arange P (Fin 0) (fadd P t_max (fdiv P dt (Fin 2))) dt = Inr t"
      and zeros: "np_zeros P (length t) 4 = Inl e" by simp_all
    from integrate_zeros_fails [OF checks grid zeros] show "integrate P self y0 t_max dt m = Inl e" .
  qed
  have 4: "(unicode_lower P method = py ''rk4'' \<longrightarrow>
         (\<exists>Y. integrate P self y0 t_max dt method = Inr (t, Y) \<and> length Y = length t \<and>
              Y ! 0 = y0 \<and>
              (\<forall>i. Suc i < length Y \<longrightarrow> rk4_row P self dt (Y ! i) = Inr (Y ! Suc i)))) \<and>
      (unicode_lower P method \<noteq> py ''rk4'' \<longrightarrow>
         integrate P self y0 t_max dt method = Inl (NotImplementedError method))"
    if h: "\<not> dt \<le> Fin 0 \<and> \<not> t_max \<le> Fin 0 \<and> length y0 = 4 \<and>
        np_arange P (Fin 0) (fadd P t_max (fdiv P dt (Fin 2))) dt = Inr t \<and> t \<noteq> [] \<and>
        np_zeros P (length t) 4 = Inr Y0" for t Y0
  proof -
    from h have checks: "\<not> dt \<le> Fin 0" "\<not> t_max \<le> Fin 0" "length y0 = 4"
      and grid: "np_arange P (Fin 0) (fadd P t_max (fdiv P dt (Fin 2))) dt = Inr t"
      and nonempty: "t \<noteq> []"
      and zeros: "np_zeros P (length t) 4 = Inr Y0" by simp_all
    have runs: "\<exists>Y. integrate P self y0 t_max dt method = Inr (t, Y) \<and> length Y = length t \<and>
              Y ! 0 = y0 \<and>
              (\<forall>i. Suc i < length Y \<longrightarrow> rk4_row P self dt (Y ! i) = Inr (Y ! Suc i))"
      if "unicode_lower P method = py ''rk4''"
      using integrate_rk4 [OF checks grid nonempty zeros that, of self] by blast
    have fails: "integrate P self y0 t_max dt method = Inl (NotImplementedError method)"
      if "unicode_lower P method \<noteq> py ''rk4''"
      using integrate_unsupported [OF checks grid nonempty zeros that] .
    from runs fails show ?thesis by blast
  qed
  have 5: "unicode_lower P method = py ''rk4'' \<and>
      (\<forall>i. Suc i < length Y \<longrightarrow> rk4_row P self dt (Y ! i) = Inr (Y ! Suc i))"
    if run: "integrate P self y0 t_max dt method = Inr (t, Y)" for t Y
  proof -
    from integrate_Inr_cases [OF run] have
      valid: "\<not> dt \<le> Fin 0" "\<not> t_max \<le> Fin 0" "length y0 = 4"
        "np_arange P (Fin 0) (fadd P t_max (fdiv P dt (Fin 2))) dt = Inr t" "t \<noteq> []"
        "np_zeros P (length t) 4 = Inr (replicate (length t) (replicate 4 (Fin 0)))"
        "unicode_lower P method = py ''rk4''"
      by simp_all
    from integrate_rk4 [OF valid, of self] run valid(7) show ?thesis by auto
  qed
  have 6: "unicode_lower P method = py ''rk4'' \<longleftrightarrow>
             method \<in> {py ''rk4'', py ''rK4'', py ''Rk4'', py ''RK4''}"
    if "ascii_lower_ok P \<and> is_ascii method"
  proof -
    from that have "unicode_lower P method = map ascii_lower method"
      by (simp add: ascii_lower_ok_def)
    then show ?thesis by (simp only: ascii_rk4_iff)
  qed
  from 1 2 3 4 5 6 show ?thesis by (intro conjI allI impI) blast+
qed

theorem integrate_method_dispatch_witness:
  "unicode_lower exact_platform (py ''RK4'') = py ''rk4'' \<and>
   integrate exact_platform unit_pendulum at_rest (Fin 1) (Fin (1 / 2)) (py ''RK4'') =
     Inr ([Fin 0, Fin (1 / 2), Fin 1], [at_rest, at_rest, at_rest]) \<and>
   unicode_lower exact_platform [114, 8490, 52] = py ''rk4'' \<and>
   (\<exists>Y. integrate exact_platform unit_pendulum at_rest (Fin 1) (Fin (1 / 2)) [114, 8490, 52] =
      Inr ([Fin 0, Fin (1 / 2), Fin 1], Y)) \<and>
   unicode_lower exact_platform (py ''euler'') \<noteq> py ''rk4'' \<and>
   integrate exact_platform unit_pendulum at_rest (Fin 1) (Fin (1 / 2)) (py ''euler'') =
     Inl (NotImplementedError (py ''euler'')) \<and>
   (\<exists>ve. integrate exact_platform unit_pendulum at_rest (Fin (- 1)) (Fin (1 / 2)) (py ''euler'') =
      Inl (ValueError ve)) \<and>
   integrate exact_platform unit_pendulum at_rest NaN (Fin (1 / 2)) (py ''euler'') =
     Inl (ValueError ArangeLength) \<and>
   ascii_lower_ok exact_platform \<and> is_ascii (py ''RK4'') \<and>
   py ''RK4'' \<in> {py ''rk4'', py ''rK4'', py ''Rk4'', py ''RK4''}"
proof -
  have n: "nat \<lceil>((1 :: real) + 1 / 2 / 2) / (1 / 2)\<rceil> = 3" by simp
  have small: "((1 :: real) + 1 / 2 / 2) / (1 / 2) \<le> 2 ^ 28" by simp
  have pos: "(0 :: real) < 1 / 2" "(0 :: real) < 1" by simp_all
  note built = exact_grid_built [OF pos small n]
  let ?t = "[Fin 0, Fin (1 / 2), Fin 1 :: npfloat]"
  have t: "map (\<lambda>i. Fin (real i * (1 / 2))) [0..<3] = ?t" by (simp add: upt_0_3)
  have l: "length ?t = 3" by simp
  have valid: "\<not> Fin (1 / 2) \<le> Fin 0 \<and> \<not> Fin 1 \<le> Fin 0 \<and> length at_rest = 4 \<and>
               np_arange exact_platform (Fin 0)
                 (fadd exact_platform (Fin 1) (fdiv exact_platform (Fin (1 / 2)) (Fin 2)))
                 (Fin (1 / 2)) = Inr ?t \<and> ?t \<noteq> [] \<and>
               np_zeros exact_platform (length ?t) 4 = Inr (replicate 3 (replicate 4 (Fin 0)))"
    using built(1,3) by (simp only: t l) (simp add: at_rest_def)
  have nan_grid: "\<not> Fin (1 / 2) \<le> Fin 0 \<and> \<not> NaN \<le> Fin 0 \<and> length at_rest = 4 \<and>
               np_arange exact_platform (Fin 0)
                 (fadd exact_platform NaN (fdiv exact_platform (Fin (1 / 2)) (Fin 2)))
                 (Fin (1 / 2)) = Inl (ValueError ArangeLength)"
    by (simp add: at_rest_def np_arange_def fsub_def nan_absorbs)
  have bad: "Fin (1 / 2) \<le> Fin 0 \<or> Fin (- 1) \<le> Fin 0 \<or> length at_rest \<noteq> 4" by simp
  have ascii: "ascii_lower_ok exact_platform \<and> is_ascii (py ''RK4'')"
    by (simp add: exact_platform_ascii is_ascii_def py_names)
  note d = integrate_method_dispatch
  from integrate_at_rest [OF pos small n lower_upper]
  have a: "integrate exact_platform unit_pendulum at_rest (Fin 1) (Fin (1 / 2)) (py ''RK4'') =
             Inr (?t, [at_rest, at_rest, at_rest])"
    by (simp add: upt_0_3 numeral_3_eq_3)
  from d [of "Fin (1 / 2)" "Fin 1" at_rest exact_platform unit_pendulum "[114, 8490, 52]"]
    valid lower_kelvin
  have b: "\<exists>Y. integrate exact_platform unit_pendulum at_rest (Fin 1) (Fin (1 / 2))
                  [114, 8490, 52] = Inr (?t, Y)"
    by blast
  from d [of "Fin (1 / 2)" "Fin 1" at_rest exact_platform unit_pendulum "py ''euler''"]
    valid lower_euler
  have c: "integrate exact_platform unit_pendulum at_rest (Fin 1) (Fin (1 / 2)) (py ''euler'') =
             Inl (NotImplementedError (py ''euler''))"
    by blast
  from d [of "Fin (1 / 2)" "Fin (- 1)" at_rest exact_platform unit_pendulum "py ''euler''"] bad
  have e: "\<exists>ve. integrate exact_platform unit_pendulum at_rest (Fin (- 1)) (Fin (1 / 2))
                   (py ''euler'') = Inl (ValueError ve)"
    by blast
  from d [of "Fin (1 / 2)" NaN at_rest exact_platform unit_pendulum "py ''euler''"] nan_grid
  have f: "integrate exact_platform unit_pendulum at_rest NaN (Fin (1 / 2)) (py ''euler'') =
             Inl (ValueError ArangeLength)"
    by blast
  from d [of "Fin (1 / 2)" "Fin 1" at_rest exact_platform unit_pendulum "py ''RK4''"] ascii
    lower_upper
  have g: "py ''RK4'' \<in> {py ''rk4'', py ''rK4'', py ''Rk4'', py ''RK4''}"
    by blast
  from lower_upper a lower_kelvin b lower_euler c e f ascii g show ?thesis by blast
qed

section \<open>Failure and the work done before it\<close>

lemma snd_bind_traced: "snd (bind_traced r f) = bind_result (snd r) (\<lambda>x. snd (f x))"
  by (cases r) (simp add: bind_traced_def bind_result_def split: sum.splits prod.splits)

lemma snd_rk4_row_traced: "snd (rk4_row_traced P self dt yi) = rk4_row P self dt yi"
  by (simp add: rk4_row_traced_def rk4_row_def snd_bind_traced derivatives_traced_def)

lemma snd_rk4_loop_traced: "snd (rk4_loop_traced P self dt idx Y) = rk4_loop P self dt idx Y"
  by (induction idx arbitrary: Y) (simp_all add: snd_bind_traced snd_rk4_row_traced)

lemma snd_integrate_traced:
  "snd (integrate_traced P self y0 t_max dt method) = integrate P self y0 t_max dt method"
  by (simp add: integrate_traced_def integrate_def Let_def snd_bind_traced snd_rk4_loop_traced
        bind_result_simps if_distrib [of snd] cong: if_cong)

lemma bind_traced_simps:
  "bind_traced (w, Inl e) f = (w, Inl e)"
  "bind_traced (w, Inr x) f = (w @ fst (f x), snd (f x))"
  by (simp_all add: bind_traced_def split: prod.splits)

lemma integrate_traced_invalid:
  assumes "dt \<le> Fin 0 \<or> t_max \<le> Fin 0 \<or> length y0 \<noteq> 4"
  shows "\<exists>ve. integrate_traced P self y0 t_max dt method = ([], Inl (ValueError ve))"
  using assms by (auto simp: integrate_traced_def)

lemma integrate_traced_arange_fails:
  assumes "\<not> dt \<le> Fin 0" and "\<not> t_max \<le> Fin 0" and "length y0 = 4"
    and "np_arange P (Fin 0) (fadd P t_max (fdiv P dt (Fin 2))) dt = Inl e"
  shows "integrate_traced P self y0 t_max dt method = ([], Inl e)"
  using assms by (simp add: integrate_traced_def bind_traced_simps)

lemma integrate_traced_zeros_fails:
  assumes "\<not> dt \<le> Fin 0" and "\<not> t_max \<le> Fin 0" and "length y0 = 4"
    and "np_arange P (Fin 0) (fadd P t_max (fdiv P dt (Fin 2))) dt = Inr t"
    and "np_zeros P (length t) 4 = Inl e"
  shows "integrate_traced P self y0 t_max dt method = ([BuildGrid], Inl e)"
  using assms by (simp add: integrate_traced_def bind_traced_simps Let_def)

lemma integrate_traced_empty_grid:
  assumes "\<not> dt \<le> Fin 0" and "\<not> t_max \<le> Fin 0" and "length y0 = 4"
    and "np_arange P (Fin 0) (fadd P t_max (fdiv P dt (Fin 2))) dt = Inr []"
    and "np_zeros P 0 4 = Inr Y0"
  shows "integrate_traced P self y0 t_max dt method = ([BuildGrid, AllocStates], Inl IndexError)"
  using assms by (simp add: integrate_traced_def bind_traced_simps)

lemma integrate_traced_unsupported:
  assumes "\<not> dt \<le> Fin 0" and "\<not> t_max \<le> Fin 0" and "length y0 = 4"
    and "np_arange P (Fin 0) (fadd P t_max (fdiv P dt (Fin 2))) dt = Inr t" and "t \<noteq> []"
    and "np_zeros P (length t) 4 = Inr Y0"
    and "unicode_lower P method \<noteq> py ''rk4''"
  shows "integrate_traced P self y0 t_max dt method =
           ([BuildGrid, AllocStates], Inl (NotImplementedError method))"
  using assms by (simp add: integrate_traced_def bind_traced_simps Let_def)

text \<open>
  C8, as stated, fails: the method is checked after the time grid and the state array
  have been built. The call with the unknown method \<open>euler\<close> and valid arguments raises
  with both already constructed.
\<close>

theorem method_check_after_allocation_counterexample:
  "integrate_traced exact_platform unit_pendulum at_rest (Fin 1) (Fin (1 / 2)) (py ''euler'') =
     ([BuildGrid, AllocStates], Inl (NotImplementedError (py ''euler'')))"
proof -
  have n: "nat \<lceil>((1 :: real) + 1 / 2 / 2) / (1 / 2)\<rceil> = 3" by simp
  have small: "((1 :: real) + 1 / 2 / 2) / (1 / 2) \<le> 2 ^ 28" by simp
  have pos: "(0 :: real) < 1 / 2" "(0 :: real) < 1" by simp_all
  note built = exact_grid_built [OF pos small n]
  let ?t = "map (\<lambda>i. Fin (real i * (1 / 2))) [0..<3]"
  have checks: "\<not> Fin (1 / 2) \<le> Fin 0" "\<not> Fin 1 \<le> Fin 0" "length at_rest = 4"
    by (simp_all add: at_rest_def)
  have nonempty: "?t \<noteq> []" by simp
  have zeros: "np_zeros exact_platform (length ?t) 4 = Inr (replicate 3 (replicate 4 (Fin 0)))"
    using built(3) by simp
  from integrate_traced_unsupported [OF checks built(1) nonempty zeros lower_euler]
  show ?thesis .
qed

text \<open>
  C8, amended. A failing call returns an error and no trajectory, and no derivative has
  been evaluated when it fails. The checks of \<open>dt\<close>, \<open>t_max\<close> and the shape of \<open>y0\<close>
  fail before any work is done, and so does \<^verbatim>\<open>np.arange\<close> when it raises; \<^verbatim>\<open>np.zeros\<close>
  raises with the time grid built; the check of the method fails after the time grid
  and the state array have been constructed, and before the first derivative.
\<close>

theorem failure_before_integration:
  assumes "integrate_traced P self y0 t_max dt method = (w, Inl e)"
  shows "integrate P self y0 t_max dt method = Inl e \<and> EvalDerivative \<notin> set w \<and>
         ((\<exists>ve. e = ValueError ve) \<and> w = [] \<and>
            (dt \<le> Fin 0 \<or> t_max \<le> Fin 0 \<or> length y0 \<noteq> 4) \<or>
          w = [] \<and> \<not> dt \<le> Fin 0 \<and> \<not> t_max \<le> Fin 0 \<and> length y0 = 4 \<and>
            np_arange P (Fin 0) (fadd P t_max (fdiv P dt (Fin 2))) dt = Inl e \<or>
          w = [BuildGrid] \<and> \<not> dt \<le> Fin 0 \<and> \<not> t_max \<le> Fin 0 \<and> length y0 = 4 \<and>
            (\<exists>t. np_arange P (Fin 0) (fadd P t_max (fdiv P dt (Fin 2))) dt = Inr t \<and>
                 np_zeros P (length t) 4 = Inl e) \<or>
          e = IndexError \<and> w = [BuildGrid, AllocStates] \<and>
            \<not> dt \<le> Fin 0 \<and> \<not> t_max \<le> Fin 0 \<and> length y0 = 4 \<and>
            np_arange P (Fin 0) (fadd P t_max (fdiv P dt (Fin 2))) dt = Inr [] \<or>
          e = NotImplementedError method \<and> w = [BuildGrid, AllocStates] \<and>
            \<not> dt \<le> Fin 0 \<and> \<not> t_max \<le> Fin 0 \<and> length y0 = 4 \<and>
            (\<exists>t. np_arange P (Fin 0) (fadd P t_max (fdiv P dt (Fin 2))) dt = Inr t \<and> t \<noteq> []) \<and>
            unicode_lower P method \<noteq> py ''rk4'')"
proof -
  let ?grid = "np_arange P (Fin 0) (fadd P t_max (fdiv P dt (Fin 2))) dt"
  have res: "integrate P self y0 t_max dt method = Inl e"
    using snd_integrate_traced [of P self y0 t_max dt "method"] assms by simp
  show ?thesis
  proof (cases "dt \<le> Fin 0 \<or> t_max \<le> Fin 0 \<or> length y0 \<noteq> 4")
    case True
    from integrate_traced_invalid [OF True, of P self "method"] assms res True
    show ?thesis by auto
  next
    case False
    then have checks: "\<not> dt \<le> Fin 0" "\<not> t_max \<le> Fin 0" "length y0 = 4" by simp_all
    show ?thesis
    proof (cases ?grid)
      case (Inl e')
      from integrate_traced_arange_fails [OF checks Inl, of self "method"] assms
      have "w = []" "e' = e" by simp_all
      with res checks Inl show ?thesis by simp
    next
      case grid: (Inr t)
      show ?thesis
      proof (cases "np_zeros P (length t) 4")
        case (Inl e')
        from integrate_traced_zeros_fails [OF checks grid Inl, of self "method"] assms
        have "w = [BuildGrid]" "e' = e" by simp_all
        with res checks grid Inl show ?thesis by simp
      next
        case zeros: (Inr Y0)
        show ?thesis
        proof (cases "t = []")
          case True
          with grid zeros have g: "?grid = Inr []" and z: "np_zeros P 0 4 = Inr Y0" by simp_all
          from integrate_traced_empty_grid [OF checks g z, of self "method"] assms
          have "w = [BuildGrid, AllocStates]" "e = IndexError" by simp_all
          with res checks g show ?thesis by simp
        next
          case nonempty: False
          have other: "unicode_lower P method \<noteq> py ''rk4''"
          proof
            assume "unicode_lower P method = py ''rk4''"
            from integrate_rk4 [OF checks grid nonempty zeros this, of self] res show False
              by auto
          qed
          from integrate_traced_unsupported [OF checks grid nonempty zeros other, of self] assms
          have "w = [BuildGrid, AllocStates]" "e = NotImplementedError method" by simp_all
          with res checks grid nonempty other show ?thesis by auto
        qed
      qed
    qed
  qed
qed

theorem failure_before_integration_witness:
  "integrate_traced exact_platform unit_pendulum at_rest (Fin (- 1)) (Fin (1 / 10)) (py ''rk4'') =
     ([], Inl (ValueError TmaxNotPositive)) \<and>
   integrate exact_platform unit_pendulum at_rest (Fin (- 1)) (Fin (1 / 10)) (py ''rk4'') =
     Inl (ValueError TmaxNotPositive) \<and>
   EvalDerivative \<notin> set ([] :: work list) \<and>
   (Fin (1 / 10) \<le> Fin 0 \<or> Fin (- 1) \<le> Fin 0 \<or> length at_rest \<noteq> 4) \<and>
   integrate_traced exact_platform unit_pendulum at_rest (Fin 1) (Fin (1 / 2)) (py ''euler'') =
     ([BuildGrid, AllocStates], Inl (NotImplementedError (py ''euler''))) \<and>
   integrate exact_platform unit_pendulum at_rest (Fin 1) (Fin (1 / 2)) (py ''euler'') =
     Inl (NotImplementedError (py ''euler'')) \<and>
   EvalDerivative \<notin> set [BuildGrid, AllocStates]"
proof -
  have h: "integrate_traced exact_platform unit_pendulum at_rest (Fin (- 1)) (Fin (1 / 10))
             (py ''rk4'') = ([], Inl (ValueError TmaxNotPositive))"
    by (simp add: integrate_traced_def)
  have n: "nat \<lceil>((1 :: real) + 1 / 2 / 2) / (1 / 2)\<rceil> = 3" by simp
  have small: "((1 :: real) + 1 / 2 / 2) / (1 / 2) \<le> 2 ^ 28" by simp
  have pos: "(0 :: real) < 1 / 2" "(0 :: real) < 1" by simp_all
  note built = exact_grid_built [OF pos small n]
  let ?t = "map (\<lambda>i. Fin (real i * (1 / 2))) [0..<3]"
  have checks: "\<not> Fin (1 / 2) \<le> Fin 0" "\<not> Fin 1 \<le> Fin 0" "length at_rest = 4"
    by (simp_all add: at_rest_def)
  have nonempty: "?t \<noteq> []" by simp
  have zeros: "np_zeros exact_platform (length ?t) 4 = Inr (replicate 3 (replicate 4 (Fin 0)))"
    using built(3) by simp
  from integrate_traced_unsupported [OF checks built(1) nonempty zeros lower_euler]
  have k: "integrate_traced exact_platform unit_pendulum at_rest (Fin 1) (Fin (1 / 2))
             (py ''euler'') = ([BuildGrid, AllocStates], Inl (NotImplementedError (py ''euler'')))" .
  from failure_before_integration [OF h] failure_before_integration [OF k] h k
  show ?thesis by simp
qed

text \<open>
  On a successful call the log holds the grid, the state array and four derivative
  evaluations for each of the \<open>N - 1\<close> steps.
\<close>

lemma rk4_row_traced_work:
  assumes "length yi = 4"
  shows "\<exists>row. rk4_row_traced P self dt yi = (replicate 4 EvalDerivative, Inr row) \<and>
               length row = 4"
proof -
  from rk4_row_stages [OF assms, of P self dt] obtain k1 k2 k3 k4 where
    k: "length k1 = 4" "length k2 = 4" "length k3 = 4" "length k4 = 4" and
    d: "derivatives P self yi = Inr k1"
       "derivatives P self (vadd P yi (smul P (fdiv P dt (Fin 2)) k1)) = Inr k2"
       "derivatives P self (vadd P yi (smul P (fdiv P dt (Fin 2)) k2)) = Inr k3"
       "derivatives P self (vadd P yi (smul P dt k3)) = Inr k4"
    by blast
  have half: "fmul P (Fin (1 / 2)) dt = fdiv P dt (Fin 2)"
    using fmul_half [of P dt] by simp
  have "rk4_row_traced P self dt yi =
          (replicate 4 EvalDerivative,
           Inr (vadd P yi (smul P (fdiv P dt (Fin 6))
                  (vadd P (vadd P (vadd P k1 (smul P (Fin 2) k2)) (smul P (Fin 2) k3)) k4))))"
    using d by (simp add: rk4_row_traced_def bind_traced_def derivatives_traced_def
        numeral_eq_Suc half del: derivatives.simps)
  moreover have "length (vadd P yi (smul P (fdiv P dt (Fin 6))
                  (vadd P (vadd P (vadd P k1 (smul P (Fin 2) k2)) (smul P (Fin 2) k3)) k4))) = 4"
    using k assms by (simp add: length_vadd length_smul)
  ultimately show ?thesis by blast
qed

lemma rk4_loop_traced_work:
  assumes "n < length Y" and "\<forall>j<length Y. length (Y ! j) = 4"
  shows "fst (rk4_loop_traced P self dt [k..<n] Y) = replicate (4 * (n - k)) EvalDerivative"
  using assms
proof (induction "n - k" arbitrary: k Y)
  case 0
  then show ?case by simp
next
  case (Suc d)
  then have kn: "k < n" by simp
  then have upt: "[k..<n] = k # [Suc k..<n]" by (simp add: upt_conv_Cons)
  from kn Suc.prems have kY: "k < length Y" "Suc k < length Y" by simp_all
  then have "length (Y ! k) = 4" using Suc.prems by simp
  then obtain row where
    row: "rk4_row_traced P self dt (Y ! k) = (replicate 4 EvalDerivative, Inr row)"
      "length row = 4"
    using rk4_row_traced_work by blast
  let ?Y1 = "Y[Suc k := row]"
  have d: "d = n - Suc k" using Suc.hyps(2) by simp
  have len1: "n < length ?Y1" using Suc.prems by simp
  have rows1: "\<forall>j<length ?Y1. length (?Y1 ! j) = 4"
    using Suc.prems row kY by (auto simp: nth_list_update)
  from Suc.hyps(1) [OF d len1 rows1]
  have rest: "fst (rk4_loop_traced P self dt [Suc k..<n] ?Y1) =
                replicate (4 * (n - Suc k)) EvalDerivative" .
  have "fst (rk4_loop_traced P self dt [k..<n] Y) =
          replicate 4 EvalDerivative @ replicate (4 * (n - Suc k)) EvalDerivative"
    using upt kY row(1) rest by (auto simp: bind_traced_def split: prod.splits sum.splits)
  also have "\<dots> = replicate (4 + 4 * (n - Suc k)) EvalDerivative"
    by (simp only: replicate_add)
  also have "4 + 4 * (n - Suc k) = 4 * (n - k)" using kn by simp
  finally show ?case .
qed

lemma integrate_traced_work:
  assumes "integrate P self y0 t_max dt method = Inr (t, Y)"
  shows "fst (integrate_traced P self y0 t_max dt method) =
           [BuildGrid, AllocStates] @ replicate (4 * (length t - 1)) EvalDerivative"
proof -
  from integrate_Inr_cases [OF assms] have
    valid: "\<not> dt \<le> Fin 0" "\<not> t_max \<le> Fin 0" "length y0 = 4"
      "np_arange P (Fin 0) (fadd P t_max (fdiv P dt (Fin 2))) dt = Inr t" "t \<noteq> []"
      "np_zeros P (length t) 4 = Inr (replicate (length t) (replicate 4 (Fin 0)))"
      "unicode_lower P method = py ''rk4''"
    by simp_all
  let ?N = "length t"
  let ?Y0 = "(replicate ?N (replicate 4 (Fin 0)))[0 := y0]"
  have N: "0 < ?N" using valid(5) by simp
  have len: "?N - 1 < length ?Y0" using N by simp
  have rows: "\<forall>j<length ?Y0. length (?Y0 ! j) = 4"
    using valid(3) N by (auto simp: nth_list_update)
  from rk4_loop_traced_work [OF len rows, of P self dt 0]
  have loop: "fst (rk4_loop_traced P self dt [0..<?N - 1] ?Y0) =
                replicate (4 * (?N - 1)) EvalDerivative"
    by simp
  show ?thesis
    using valid N loop
    by (auto simp: integrate_traced_def Let_def bind_traced_def split: prod.splits sum.splits)
qed

end
